theory Spec2Isabelle
  imports Complex_Main "HOL-Library.Word" "HOL-Library.Sublist"
begin

section \<open>The face verification service (src/verification/app.py)\<close>

text \<open>
  The service receives a JSON payload with a user id and two base64 images (a driving
  license and a selfie), saves both to the upload folder, crops the first detected face
  of each, asks DeepFace for the distance of the two crops and compares it with a fixed
  threshold.

  The embedding follows the Python text function by function. Everything the code gets
  from a library (base64, the file system, OpenCV, DeepFace, uuid, Flask's request) is a
  field of the record \<open>env\<close> or of the record \<open>request\<close>; the file system is an explicit
  map from paths to contents, passed through every function that touches it. An
  exception is the value \<open>Inl msg\<close>, where \<open>msg\<close> is what \<open>str(e)\<close> gives; only
  instances of \<open>Exception\<close> are modelled, since these are what the \<open>except\<close> clauses of
  the source catch.
\<close>

subsection \<open>Values\<close>

type_synonym bytes = "8 word list"
type_synonym exc = string
type_synonym fs = "string \<rightharpoonup> bytes"

text \<open>
  A Python float. A finite double is a rational number; the source's literal \<open>0.55\<close> is
  kept as the decimal it is written as (see \<open>threshold_on_doubles\<close> below for why the
  comparison with the nearest double gives the same answer on every double).
\<close>

datatype pyfloat = Finite rat | PosInf | NegInf | NaN

fun float_ge :: "pyfloat \<Rightarrow> pyfloat \<Rightarrow> bool" where
  "float_ge NaN _ = False"
| "float_ge _ NaN = False"
| "float_ge (Finite a) (Finite b) = (b \<le> a)"
| "float_ge PosInf _ = True"
| "float_ge _ NegInf = True"
| "float_ge (Finite _) PosInf = False"
| "float_ge NegInf _ = False"

text \<open>What \<open>request.get_json()\<close> can return, and what the response dictionaries hold.\<close>

datatype json =
    JNull
  | JBool bool
  | JInt int
  | JFloat pyfloat
  | JStr string
  | JArr "json list"
  | JObj "(string \<times> json) list"

text \<open>A Python dictionary with string keys, in insertion order; \<open>map_of\<close> looks a key up.\<close>

type_synonym pydict = "(string \<times> json) list"

subsection \<open>Configuration (lines 15 to 17)\<close>

definition UPLOAD_FOLDER :: string where
  "UPLOAD_FOLDER = ''uploads''"

definition SIMILARITY_THRESHOLD :: pyfloat where
  "SIMILARITY_THRESHOLD = Finite (55 / 100)"

subsection \<open>Images\<close>

type_synonym pixel = "8 word \<times> 8 word \<times> 8 word"
type_synonym image = "pixel list list"
type_synonym gray = "8 word list list"

text \<open>A detected region \<open>(x, y, w, h)\<close>, as a row of the detector's output array.\<close>

type_synonym box = "int \<times> int \<times> int \<times> int"

text \<open>
  Python's slice \<open>xs[a:b]\<close> for integers \<open>a\<close> and \<open>b\<close>: a negative bound counts from the
  end, both bounds are clamped to the sequence, and an empty range gives the empty
  sequence. It never raises.
\<close>

definition slice_bound :: "nat \<Rightarrow> int \<Rightarrow> nat" where
  "slice_bound n i = (if i < 0 then nat (max (i + int n) 0) else min (nat i) n)"

definition py_slice :: "int \<Rightarrow> int \<Rightarrow> 'a list \<Rightarrow> 'a list" where
  "py_slice a b xs =
     (let s = slice_bound (length xs) a; e = slice_bound (length xs) b
      in take (e - s) (drop s xs))"

text \<open>Line 62: \<open>image[y:y+h, x:x+w]\<close>, rows first, then columns of each row. The
  coordinates are 32-bit integers of the detector; they are taken as integers here, since
  the sums of a region inside an image do not wrap around.\<close>

definition crop :: "'a list list \<Rightarrow> box \<Rightarrow> 'a list list" where
  "crop img b = (case b of (x, y, w, h) \<Rightarrow> map (py_slice x (x + w)) (py_slice y (y + h) img))"

subsection \<open>Strings\<close>

text \<open>\<open>s.split(sep)\<close> for a one-character separator: one more piece than separators.\<close>

fun py_split :: "char \<Rightarrow> string \<Rightarrow> string list" where
  "py_split sep [] = [[]]"
| "py_split sep (c # cs) =
     (if c = sep then [] # py_split sep cs
      else (case py_split sep cs of w # ws \<Rightarrow> (c # w) # ws | [] \<Rightarrow> [[c]]))"

text \<open>Line 65: \<open>image_path.replace(".", "_cropped.")\<close>, every dot replaced.\<close>

fun replace_dot :: "string \<Rightarrow> string" where
  "replace_dot [] = []"
| "replace_dot (c # cs) =
     (if c = CHR ''.'' then ''_cropped.'' @ replace_dot cs else c # replace_dot cs)"

text \<open>\<open>os.path.join(a, b)\<close> on POSIX, for a first component that does not end in a slash.\<close>

definition path_join :: "string \<Rightarrow> string \<Rightarrow> string" where
  "path_join a b = (if prefix ''/'' b then b else a @ ''/'' @ b)"

text \<open>\<open>needle in haystack\<close> for two strings.\<close>

definition substring :: "string \<Rightarrow> string \<Rightarrow> bool" where
  "substring needle hay = list_ex (prefix needle) (suffixes hay)"

subsection \<open>The external capabilities\<close>

text \<open>
  \<^item> \<open>py_format\<close>: \<open>str(v)\<close> for a JSON value that is not a string (used by the f-strings);
  \<^item> \<open>uuid4\<close>: the text of the identifier \<open>uuid.uuid4()\<close> returns for this request;
  \<^item> \<open>b64decode\<close>: \<open>base64.b64decode\<close>, \<open>Inl\<close> when it raises;
  \<^item> \<open>open_wb\<close>: \<open>Some msg\<close> when \<open>open(path, 'wb')\<close> raises, and then no file is created;
  \<^item> \<open>fwrite\<close>: \<open>Some (msg, left)\<close> when \<open>f.write(data)\<close> raises on the opened file: the
    file exists then, emptied by the open, and holds \<open>left\<close>, what had reached it (nothing
    when the write fails at once);
  \<^item> \<open>decode_image\<close>: the decoder behind \<open>cv2.imread\<close>, \<open>None\<close> for bytes that are no image;
  \<^item> \<open>cvtColor\<close>: \<open>cv2.cvtColor(image, cv2.COLOR_BGR2GRAY)\<close>;
  \<^item> \<open>detectMultiScale\<close>: the cascade detector with its arguments \<open>scaleFactor\<close>,
    \<open>minNeighbors\<close> and \<open>minSize\<close>, \<open>Inl\<close> when it raises;
  \<^item> \<open>imwrite\<close>: \<open>cv2.imwrite\<close>: \<open>Inl\<close> when it raises, \<open>Inr None\<close> when it returns
    without writing, \<open>Inr (Some b)\<close> when it writes the encoded bytes \<open>b\<close>;
  \<^item> \<open>deepface_verify\<close>: \<open>DeepFace.verify(p1, p2, model_name)["distance"]\<close>, given the
    contents of the two files, \<open>Inl\<close> when the call or the lookup raises.
\<close>

record env =
  py_format :: "json \<Rightarrow> string"
  uuid4 :: string
  b64decode :: "string \<Rightarrow> exc + bytes"
  open_wb :: "string \<Rightarrow> exc option"
  fwrite :: "string \<Rightarrow> bytes \<Rightarrow> (exc \<times> bytes) option"
  decode_image :: "bytes \<Rightarrow> image option"
  cvtColor :: "image \<Rightarrow> gray"
  detectMultiScale :: "gray \<Rightarrow> rat \<Rightarrow> nat \<Rightarrow> nat \<times> nat \<Rightarrow> exc + box list"
  imwrite :: "string \<Rightarrow> image \<Rightarrow> exc + bytes option"
  deepface_verify :: "bytes option \<Rightarrow> bytes option \<Rightarrow> string \<Rightarrow> exc + pyfloat"

text \<open>Flask's request: \<open>request.is_json\<close> and \<open>request.get_json()\<close>, \<open>Inl\<close> when it raises.\<close>

record request =
  is_json :: bool
  get_json :: "exc + json"

subsection \<open>Python's dynamic typing, where the source relies on it\<close>

fun type_name :: "json \<Rightarrow> string" where
  "type_name JNull = ''NoneType''"
| "type_name (JBool _) = ''bool''"
| "type_name (JInt _) = ''int''"
| "type_name (JFloat _) = ''float''"
| "type_name (JStr _) = ''str''"
| "type_name (JArr _) = ''list''"
| "type_name (JObj _) = ''dict''"

text \<open>\<open>key in data\<close>: keys of a dictionary, elements of a list, substrings of a string;
  a \<open>TypeError\<close> for anything else.\<close>

fun py_in :: "string \<Rightarrow> json \<Rightarrow> exc + bool" where
  "py_in k (JObj kvs) = Inr (k \<in> set (map fst kvs))"
| "py_in k (JArr vs) = Inr (JStr k \<in> set vs)"
| "py_in k (JStr s) = Inr (substring k s)"
| "py_in k v = Inl (''argument of type '' @ [CHR 0x27] @ type_name v @ [CHR 0x27] @ '' is not iterable'')"

text \<open>\<open>data[key]\<close> for a string key: only a dictionary has one.\<close>

fun py_getitem :: "json \<Rightarrow> string \<Rightarrow> exc + json" where
  "py_getitem (JObj kvs) k =
     (case map_of kvs k of Some v \<Rightarrow> Inr v | None \<Rightarrow> Inl ([CHR 0x27] @ k @ [CHR 0x27]))"
| "py_getitem (JArr vs) k = Inl ''list indices must be integers or slices, not str''"
| "py_getitem (JStr s) k =
     Inl (''string indices must be integers, not '' @ [CHR 0x27] @ ''str'' @ [CHR 0x27])"
| "py_getitem v k = Inl ([CHR 0x27] @ type_name v @ [CHR 0x27] @ '' object is not subscriptable'')"

text \<open>\<open>f"{v}"\<close>: a string is inserted as it is.\<close>

fun fstr :: "env \<Rightarrow> json \<Rightarrow> string" where
  "fstr E (JStr s) = s"
| "fstr E v = py_format E v"

text \<open>\<open>f"{error}"\<close> for the second component of a returned pair.\<close>

fun fstr_opt :: "string option \<Rightarrow> string" where
  "fstr_opt None = ''None''"
| "fstr_opt (Some s) = s"

text \<open>\<open>if error:\<close> on \<open>None\<close> or a string: only a non-empty string is true.\<close>

fun truthy :: "string option \<Rightarrow> bool" where
  "truthy None = False"
| "truthy (Some s) = (s \<noteq> [])"

subsection \<open>save_base64_image (lines 26 to 43)\<close>

text \<open>Lines 29 to 33: the part of the argument handed to the decoder.\<close>

fun base64_data :: "json \<Rightarrow> exc + string" where
  "base64_data (JStr s) =
     (if prefix ''data:image'' s
      then (case py_split (CHR '','') s of
              _ # d # _ \<Rightarrow> Inr d
            | _ \<Rightarrow> Inl ''list index out of range'')
      else Inr s)"
| "base64_data v =
     Inl ([CHR 0x27] @ type_name v @ [CHR 0x27] @ '' object has no attribute '' @
          [CHR 0x27] @ ''startswith'' @ [CHR 0x27])"

text \<open>The whole function: any exception of the body becomes \<open>(None, str(e))\<close>.\<close>

definition save_base64_image ::
  "env \<Rightarrow> fs \<Rightarrow> json \<Rightarrow> string \<Rightarrow> (string option \<times> string option) \<times> fs" where
  "save_base64_image E files base64_string filename =
     (case base64_data base64_string of
        Inl e \<Rightarrow> ((None, Some e), files)
      | Inr d \<Rightarrow>
         (case b64decode E d of
            Inl e \<Rightarrow> ((None, Some e), files)
          | Inr image_data \<Rightarrow>
             (let file_path = path_join UPLOAD_FOLDER filename
              in case open_wb E file_path of
                   Some e \<Rightarrow> ((None, Some e), files)
                 | None \<Rightarrow>
                    (case fwrite E file_path image_data of
                       Some (e, left) \<Rightarrow> ((None, Some e), files(file_path \<mapsto> left))
                     | None \<Rightarrow> ((Some file_path, None), files(file_path \<mapsto> image_data))))))"

subsection \<open>extract_face (lines 45 to 68)\<close>

text \<open>
  \<open>cv2.imread\<close> returns \<open>None\<close> for a file that is missing or is no image, and for
  the argument \<open>None\<close>. Building the classifier (lines 47 and 48) does not raise; a
  classifier that failed to load makes \<open>detectMultiScale\<close> raise.
\<close>

definition imread :: "env \<Rightarrow> fs \<Rightarrow> string \<Rightarrow> image option" where
  "imread E files p = (case files p of None \<Rightarrow> None | Some b \<Rightarrow> decode_image E b)"

fun extract_face ::
  "env \<Rightarrow> fs \<Rightarrow> string option \<Rightarrow> (exc + (string option \<times> string option)) \<times> fs" where
  "extract_face E files None = (Inr (None, Some ''Could not read image''), files)"
| "extract_face E files (Some image_path) =
     (case imread E files image_path of
        None \<Rightarrow> (Inr (None, Some ''Could not read image''), files)
      | Some img \<Rightarrow>
         (case detectMultiScale E (cvtColor E img) (11 / 10) 5 (50, 50) of
            Inl e \<Rightarrow> (Inl e, files)
          | Inr [] \<Rightarrow> (Inr (None, Some ''No face detected in the image''), files)
          | Inr (b # _) \<Rightarrow>
             (let face = crop img b;
                  extracted_face_path = replace_dot image_path
              in case imwrite E extracted_face_path face of
                   Inl e \<Rightarrow> (Inl e, files)
                 | Inr None \<Rightarrow> (Inr (Some extracted_face_path, None), files)
                 | Inr (Some encoded) \<Rightarrow>
                     (Inr (Some extracted_face_path, None),
                      files(extracted_face_path \<mapsto> encoded)))))"

subsection \<open>match_faces (lines 70 to 102)\<close>

text \<open>Lines 88 to 99: the comparison with the threshold and the two dictionaries.\<close>

definition threshold_result :: "pyfloat \<Rightarrow> pydict" where
  "threshold_result similarity_score =
     (if float_ge similarity_score SIMILARITY_THRESHOLD
      then [(''verified'', JBool True), (''similarity_score'', JFloat similarity_score)]
      else [(''verified'', JBool False), (''error'', JStr ''Face verification failed''),
            (''similarity_score'', JFloat similarity_score)])"

text \<open>The body of the \<open>try\<close> (lines 72 to 99).\<close>

definition match_faces_try ::
  "env \<Rightarrow> fs \<Rightarrow> string option \<Rightarrow> string option \<Rightarrow> (exc + pydict) \<times> fs" where
  "match_faces_try E files license_img_path selfie_img_path =
     (case extract_face E files license_img_path of
        (Inl e, files1) \<Rightarrow> (Inl e, files1)
      | (Inr (None, error), files1) \<Rightarrow>
          (Inr [(''verified'', JBool False),
                (''error'', JStr (''License image error: '' @ fstr_opt error))], files1)
      | (Inr (Some license_face, _), files1) \<Rightarrow>
         (case extract_face E files1 selfie_img_path of
            (Inl e, files2) \<Rightarrow> (Inl e, files2)
          | (Inr (None, error), files2) \<Rightarrow>
              (Inr [(''verified'', JBool False),
                    (''error'', JStr (''Selfie image error: '' @ fstr_opt error))], files2)
          | (Inr (Some selfie_face, _), files2) \<Rightarrow>
             (case deepface_verify E (files2 license_face) (files2 selfie_face) ''Facenet'' of
                Inl e \<Rightarrow> (Inl e, files2)
              | Inr similarity_score \<Rightarrow> (Inr (threshold_result similarity_score), files2))))"

text \<open>The whole function, with the \<open>except Exception\<close> of lines 101 and 102. A call
  of a Python function returns or raises; the result keeps both possibilities, as that of
  every other call does, and \<open>Inl\<close> stands for an exception that leaves the function.\<close>

definition match_faces ::
  "env \<Rightarrow> fs \<Rightarrow> string option \<Rightarrow> string option \<Rightarrow> (exc + pydict) \<times> fs" where
  "match_faces E files license_img_path selfie_img_path =
     (case match_faces_try E files license_img_path selfie_img_path of
        (Inl e, files') \<Rightarrow>
          (Inr [(''verified'', JBool False), (''error'', JStr (''Processing error: '' @ e))],
           files')
      | (Inr result, files') \<Rightarrow> (Inr result, files'))"

subsection \<open>verify (lines 104 to 139)\<close>

text \<open>A response is the dictionary given to \<open>jsonify\<close> and the status (200 when the source
  gives none).\<close>

type_synonym response = "pydict \<times> nat"

definition error_response :: "string \<Rightarrow> nat \<Rightarrow> response" where
  "error_response msg status = ([(''verified'', JBool False), (''error'', JStr msg)], status)"

text \<open>Line 114: the three membership tests, left to right, stopping at the first that is
  true or raises.\<close>

definition fields_missing :: "json \<Rightarrow> exc + bool" where
  "fields_missing data =
     (case py_in ''userId'' data of
        Inl e \<Rightarrow> Inl e
      | Inr False \<Rightarrow> Inr True
      | Inr True \<Rightarrow>
         (case py_in ''license_base64'' data of
            Inl e \<Rightarrow> Inl e
          | Inr False \<Rightarrow> Inr True
          | Inr True \<Rightarrow>
             (case py_in ''selfie_base64'' data of
                Inl e \<Rightarrow> Inl e
              | Inr b \<Rightarrow> Inr (\<not> b))))"

text \<open>Lines 121 and 122.\<close>

definition license_filename :: "env \<Rightarrow> json \<Rightarrow> string" where
  "license_filename E user_id = fstr E user_id @ ''_'' @ uuid4 E @ ''_license.png''"

definition selfie_filename :: "env \<Rightarrow> json \<Rightarrow> string" where
  "selfie_filename E user_id = fstr E user_id @ ''_'' @ uuid4 E @ ''_selfie.png''"

text \<open>Lines 121 to 136, with the user id of line 118 at hand: the two uploads are saved
  one after the other, each look-up of the payload where the source has it, and the
  faces are matched when neither upload reported an error. The call of line 134 stands
  inside the \<open>try\<close> of \<open>verify\<close>: an exception leaving \<open>match_faces\<close> would go on to the
  handler of line 138.\<close>

definition save_and_match :: "env \<Rightarrow> fs \<Rightarrow> json \<Rightarrow> json \<Rightarrow> (exc + response) \<times> fs" where
  "save_and_match E files data user_id =
     (case py_getitem data ''license_base64'' of
        Inl e \<Rightarrow> (Inl e, files)
      | Inr license_base64 \<Rightarrow>
         (case save_base64_image E files license_base64 (license_filename E user_id) of
            ((license_path, license_error), files1) \<Rightarrow>
              if truthy license_error
              then (Inr (error_response
                      (''License image error: '' @ fstr_opt license_error) 400), files1)
              else
               (case py_getitem data ''selfie_base64'' of
                  Inl e \<Rightarrow> (Inl e, files1)
                | Inr selfie_base64 \<Rightarrow>
                   (case save_base64_image E files1 selfie_base64 (selfie_filename E user_id) of
                      ((selfie_path, selfie_error), files2) \<Rightarrow>
                        if truthy selfie_error
                        then (Inr (error_response
                                (''Selfie image error: '' @ fstr_opt selfie_error) 400), files2)
                        else
                         (case match_faces E files2 license_path selfie_path of
                            (Inl e, files3) \<Rightarrow> (Inl e, files3)
                          | (Inr result, files3) \<Rightarrow> (Inr (result, 200), files3))))))"

text \<open>The body of the \<open>try\<close> (lines 108 to 136).\<close>

definition verify_try :: "env \<Rightarrow> request \<Rightarrow> fs \<Rightarrow> (exc + response) \<times> fs" where
  "verify_try E req files =
     (if \<not> is_json req then (Inr (error_response ''Request must be JSON'' 400), files)
      else case get_json req of
        Inl e \<Rightarrow> (Inl e, files)
      | Inr data \<Rightarrow>
         (case fields_missing data of
            Inl e \<Rightarrow> (Inl e, files)
          | Inr True \<Rightarrow> (Inr (error_response ''Missing required fields'' 400), files)
          | Inr False \<Rightarrow>
             (case py_getitem data ''userId'' of
                Inl e \<Rightarrow> (Inl e, files)
              | Inr user_id \<Rightarrow> save_and_match E files data user_id)))"

text \<open>With the \<open>except Exception\<close> of lines 138 and 139.\<close>

definition verify :: "env \<Rightarrow> request \<Rightarrow> fs \<Rightarrow> response \<times> fs" where
  "verify E req files =
     (case verify_try E req files of
        (Inl e, files') \<Rightarrow> (error_response (''Server error: '' @ e) 500, files')
      | (Inr r, files') \<Rightarrow> (r, files'))"

subsection \<open>Notions the properties are stated with\<close>

text \<open>The paths one request can write: the two uploads (lines 121, 122 and 36) and
  their cropped copies (line 65).\<close>

definition request_paths :: "env \<Rightarrow> json \<Rightarrow> string list" where
  "request_paths E user_id =
     (let l = path_join UPLOAD_FOLDER (license_filename E user_id);
          s = path_join UPLOAD_FOLDER (selfie_filename E user_id)
      in [l, s, replace_dot l, replace_dot s])"

text \<open>The four endings of the names of lines 121, 122 and 65.\<close>

definition path_ends :: "string set" where
  "path_ends = {''_license.png'', ''_selfie.png'', ''_license_cropped.png'', ''_selfie_cropped.png''}"

text \<open>The double nearest to the decimal 0.55, which is what the literal of line 17 denotes
  at run time.\<close>

definition nearest_double_0_55 :: rat where
  "nearest_double_0_55 = 2476979795053773 / 4503599627370496"

text \<open>What a step may do to the file system when it only adds files at the paths \<open>ps\<close>:
  every other path keeps its content, and no path disappears.\<close>

definition only_adds :: "string set \<Rightarrow> fs \<Rightarrow> fs \<Rightarrow> bool" where
  "only_adds ps before after =
     ((\<forall>q. q \<notin> ps \<longrightarrow> after q = before q) \<and> (\<forall>q. before q \<noteq> None \<longrightarrow> after q \<noteq> None))"

text \<open>The text of a version 4 UUID as \<open>str(uuid.uuid4())\<close> prints it: 36 characters,
  lower-case hexadecimal digits and hyphens.\<close>

definition uuid_text :: "string \<Rightarrow> bool" where
  "uuid_text g = (length g = 36 \<and> list_all (\<lambda>c. c \<in> set ''0123456789abcdef-'') g)"

text \<open>A payload that is a JSON object with the three fields of line 114.\<close>

fun carries_required_fields :: "json \<Rightarrow> bool" where
  "carries_required_fields (JObj kvs) =
     (''userId'' \<in> set (map fst kvs) \<and> ''license_base64'' \<in> set (map fst kvs) \<and>
      ''selfie_base64'' \<in> set (map fst kvs))"
| "carries_required_fields _ = False"

text \<open>The portion of a string after its first comma, in the words of the specification
  (section 6), to compare with what line 31 selects.\<close>

definition after_first_comma :: "string \<Rightarrow> string" where
  "after_first_comma s = drop 1 (dropWhile (\<lambda>c. c \<noteq> CHR '','') s)"

text \<open>The contract of OpenCV's \<open>minSize\<close> argument: no reported region is smaller.\<close>

definition honours_minSize :: "(gray \<Rightarrow> rat \<Rightarrow> nat \<Rightarrow> nat \<times> nat \<Rightarrow> exc + box list) \<Rightarrow> bool" where
  "honours_minSize detect =
     (\<forall>g scaleFactor minNeighbors mw mh regions x y w h.
        detect g scaleFactor minNeighbors (mw, mh) = Inr regions \<longrightarrow>
        (x, y, w, h) \<in> set regions \<longrightarrow> int mw \<le> w \<and> int mh \<le> h)"

section \<open>A small environment for evaluation\<close>

text \<open>
  One concrete choice of the external capabilities, used to evaluate the functions above
  on explicit inputs. The decoder table agrees with CPython on its four entries
  (\<open>QUJD\<close> is \<open>ABC\<close>, \<open>QUJD,REVG\<close> is \<open>ABCDEF\<close> since characters outside the alphabet
  are skipped, \<open>AQ==\<close> is the byte 1, and \<open>A\<close> is rejected); the bytes \<open>ABC\<close> are no
  image. Every write succeeds; the detector reports two regions, the first one
  of the minimum size it was asked for.
\<close>

definition demo_image :: image where
  "demo_image = replicate 60 (replicate 60 (200, 180, 160))"

definition demo_env :: env where
  "demo_env = \<lparr>
     py_format = (\<lambda>v. ''None''),
     uuid4 = ''8ab6788b-d739-481d-9404-775a683c2e9e'',
     b64decode = (\<lambda>s. if s = ''QUJD'' then Inr [0x41, 0x42, 0x43]
                        else if s = ''QUJD,REVG'' then Inr [0x41, 0x42, 0x43, 0x44, 0x45, 0x46]
                        else if s = ''AQ=='' then Inr [1]
                        else if s = ''A'' then Inl ''Invalid base64-encoded string: number of data characters (1) cannot be 1 more than a multiple of 4''
                        else Inl ''Incorrect padding''),
     open_wb = (\<lambda>p. None),
     fwrite = (\<lambda>p b. None),
     decode_image = (\<lambda>b. if b = [1] then Some demo_image else None),
     cvtColor = map (map (\<lambda>(b, g, r). g)),
     detectMultiScale = (\<lambda>g scaleFactor minNeighbors minSize.
        Inr [(5, 5, int (fst minSize), int (snd minSize)),
             (0, 0, int (fst minSize) + 10, int (snd minSize) + 10)]),
     imwrite = (\<lambda>p face. Inr (Some [2])),
     deepface_verify = (\<lambda>a b model_name.
        if a = Some [2] \<and> b = Some [2] then Inr (Finite (6 / 10))
        else Inl ''Face could not be detected'')
   \<rparr>"

definition demo_files :: fs where
  "demo_files = [''uploads/u_g_license.png'' \<mapsto> [1], ''uploads/u_g_selfie.png'' \<mapsto> [1]]"

definition demo_grid :: "nat list list" where
  "demo_grid = [[11, 12, 13], [21, 22, 23]]"

definition demo_request :: "json \<Rightarrow> json \<Rightarrow> request" where
  "demo_request license_base64 selfie_base64 =
     \<lparr>is_json = True,
      get_json = Inr (JObj [(''userId'', JStr ''u1''), (''license_base64'', license_base64),
                            (''selfie_base64'', selfie_base64)])\<rparr>"

text \<open>A request whose body is the JSON text \<open>null\<close>.\<close>

definition null_request :: request where
  "null_request = \<lparr>is_json = True, get_json = Inr JNull\<rparr>"

section \<open>Properties\<close>

subsection \<open>The cropper\<close>

lemma slice_bound_nonneg: "0 \<le> i \<Longrightarrow> slice_bound n i = min (nat i) n"
  by (simp add: slice_bound_def)

lemma py_slice_in_range:
  assumes "0 \<le> a" "0 \<le> n" "a + n \<le> int (length xs)"
  shows "py_slice a (a + n) xs = take (nat n) (drop (nat a) xs)"
proof -
  have "slice_bound (length xs) a = nat a"
    using assms by (simp add: slice_bound_nonneg)
  moreover have "slice_bound (length xs) (a + n) = nat a + nat n"
    using assms by (simp add: slice_bound_nonneg nat_add_distrib)
  ultimately show ?thesis by (simp add: py_slice_def)
qed

lemma crop_rows:
  assumes "0 \<le> x" "0 \<le> y" "0 < w" "0 < h" "y + h \<le> int (length img)"
    "\<forall>row \<in> set img. x + w \<le> int (length row)"
  shows "crop img (x, y, w, h) =
         map (\<lambda>row. take (nat w) (drop (nat x) row)) (take (nat h) (drop (nat y) img))"
proof -
  have rows: "py_slice y (y + h) img = take (nat h) (drop (nat y) img)"
    using assms by (simp add: py_slice_in_range)
  have "\<And>row. row \<in> set (take (nat h) (drop (nat y) img)) \<Longrightarrow>
          py_slice x (x + w) row = take (nat w) (drop (nat x) row)"
  proof -
    fix row assume "row \<in> set (take (nat h) (drop (nat y) img))"
    then have "row \<in> set img" by (meson in_set_takeD in_set_dropD)
    then show "py_slice x (x + w) row = take (nat w) (drop (nat x) row)"
      using assms by (simp add: py_slice_in_range)
  qed
  then show ?thesis by (simp add: crop_def rows)
qed

text \<open>
  C8. The cropper of line 62 has no failure path: \<open>crop\<close> is a function of the grid and
  the box alone, it returns a new grid and changes nothing. For a box of positive width
  and height that lies within the grid, the result has exactly \<open>h\<close> rows of \<open>w\<close> pixels,
  and its pixel \<open>(i, j)\<close> is the pixel \<open>(y + i, x + j)\<close> of the source: rows \<open>y..y+h\<close>,
  columns \<open>x..x+w\<close>.
\<close>

theorem crop_in_bounds:
  assumes "0 \<le> x" "0 \<le> y" "0 < w" "0 < h" "y + h \<le> int (length img)"
    "\<forall>row \<in> set img. x + w \<le> int (length row)"
  shows "length (crop img (x, y, w, h)) = nat h \<and>
         (\<forall>i < nat h. length (crop img (x, y, w, h) ! i) = nat w \<and>
            (\<forall>j < nat w. crop img (x, y, w, h) ! i ! j = img ! (nat y + i) ! (nat x + j)))"
proof -
  let ?rows = "take (nat h) (drop (nat y) img)"
  have c: "crop img (x, y, w, h) = map (\<lambda>row. take (nat w) (drop (nat x) row)) ?rows"
    using assms by (rule crop_rows)
  have len: "length ?rows = nat h" using assms by simp
  have "\<And>i. i < nat h \<Longrightarrow> length (crop img (x, y, w, h) ! i) = nat w \<and>
            (\<forall>j < nat w. crop img (x, y, w, h) ! i ! j = img ! (nat y + i) ! (nat x + j))"
  proof -
    fix i assume i: "i < nat h"
    have yi: "nat y + i < length img" using assms i by linarith
    have ri: "?rows ! i = img ! (nat y + i)" using i yi by simp
    have "img ! (nat y + i) \<in> set img" using yi by simp
    then have wl: "x + w \<le> int (length (img ! (nat y + i)))" using assms by blast
    have ci: "crop img (x, y, w, h) ! i = take (nat w) (drop (nat x) (img ! (nat y + i)))"
      using c len i ri by simp
    have "length (take (nat w) (drop (nat x) (img ! (nat y + i)))) = nat w"
      using wl assms by simp
    moreover have "\<forall>j < nat w. take (nat w) (drop (nat x) (img ! (nat y + i))) ! j =
                     img ! (nat y + i) ! (nat x + j)"
      using wl assms by simp
    ultimately show "length (crop img (x, y, w, h) ! i) = nat w \<and>
            (\<forall>j < nat w. crop img (x, y, w, h) ! i ! j = img ! (nat y + i) ! (nat x + j))"
      using ci by simp
  qed
  then show ?thesis using c len by simp
qed

theorem crop_in_bounds_witness:
  "(0::int) \<le> 1 \<and> (0::int) \<le> 0 \<and> (0::int) < 2 \<and> (0::int) < 1 \<and>
   (0::int) + 1 \<le> int (length demo_grid) \<and>
   list_all (\<lambda>row. (1::int) + 2 \<le> int (length row)) demo_grid \<and>
   length (crop demo_grid (1, 0, 2, 1)) = 1 \<and>
   crop demo_grid (1, 0, 2, 1) ! 0 ! 0 = 12 \<and> crop demo_grid (1, 0, 2, 1) ! 0 ! 1 = 13"
  using crop_in_bounds [of 1 0 2 1 demo_grid]
  by (simp add: demo_grid_def)

subsection \<open>The shape of what match_faces returns\<close>

lemma match_faces_shapes:
  "(\<exists>m. fst (match_faces E files lp sp) =
          Inr [(''verified'', JBool False), (''error'', JStr m)]) \<or>
   (\<exists>lf e1 files1 sf e2 files2 d.
       extract_face E files lp = (Inr (Some lf, e1), files1) \<and>
       extract_face E files1 sp = (Inr (Some sf, e2), files2) \<and>
       deepface_verify E (files2 lf) (files2 sf) ''Facenet'' = Inr d \<and>
       fst (match_faces E files lp sp) = Inr (threshold_result d))"
  unfolding match_faces_def match_faces_try_def
  by (auto split: prod.splits sum.splits option.splits)

lemma match_faces_returns: "\<exists>r f. match_faces E files lp sp = (Inr r, f)"
  unfolding match_faces_def
  by (cases "match_faces_try E files lp sp") (auto split: sum.splits)

lemma extract_face_demo_license:
  "extract_face demo_env demo_files (Some ''uploads/u_g_license.png'') =
     (Inr (Some ''uploads/u_g_license_cropped.png'', None),
      demo_files(''uploads/u_g_license_cropped.png'' \<mapsto> [2]))"
  by (simp add: demo_env_def demo_files_def imread_def Let_def)

lemma extract_face_demo_selfie:
  "extract_face demo_env (demo_files(''uploads/u_g_license_cropped.png'' \<mapsto> [2]))
     (Some ''uploads/u_g_selfie.png'') =
     (Inr (Some ''uploads/u_g_selfie_cropped.png'', None),
      demo_files(''uploads/u_g_license_cropped.png'' \<mapsto> [2],
                 ''uploads/u_g_selfie_cropped.png'' \<mapsto> [2]))"
  by (simp add: demo_env_def demo_files_def imread_def Let_def)

subsection \<open>The decision\<close>

text \<open>
  C1. The decision is a comparison with the fixed threshold 0.55, a larger distance
  being the success: when both faces were extracted and the scorer returned the finite
  distance \<open>d\<close>, the request is verified if and only if \<open>d \<ge> 0.55\<close>; the verified result
  holds the score, and the not-verified result holds the score too, beside its error.
\<close>

theorem threshold_decision:
  assumes "extract_face E files license_img_path = (Inr (Some license_face, e1), files1)"
    and "extract_face E files1 selfie_img_path = (Inr (Some selfie_face, e2), files2)"
    and "deepface_verify E (files2 license_face) (files2 selfie_face) ''Facenet'' = Inr (Finite d)"
  shows "fst (match_faces E files license_img_path selfie_img_path) =
           Inr (if 55 / 100 \<le> d
                then [(''verified'', JBool True), (''similarity_score'', JFloat (Finite d))]
                else [(''verified'', JBool False), (''error'', JStr ''Face verification failed''),
                      (''similarity_score'', JFloat (Finite d))])
         \<and> (\<exists>r. fst (match_faces E files license_img_path selfie_img_path) = Inr r \<and>
                map_of r ''verified'' = Some (JBool (55 / 100 \<le> d)))"
  using assms
  by (simp add: match_faces_def match_faces_try_def threshold_result_def SIMILARITY_THRESHOLD_def)

theorem threshold_decision_witness:
  "fst (match_faces demo_env demo_files (Some ''uploads/u_g_license.png'')
         (Some ''uploads/u_g_selfie.png'')) =
     Inr [(''verified'', JBool True), (''similarity_score'', JFloat (Finite (6 / 10)))]
   \<and> fst (match_faces (demo_env\<lparr>deepface_verify := \<lambda>a b m. Inr (Finite (54 / 100))\<rparr>) demo_files
         (Some ''uploads/u_g_license.png'') (Some ''uploads/u_g_selfie.png'')) =
     Inr [(''verified'', JBool False), (''error'', JStr ''Face verification failed''),
          (''similarity_score'', JFloat (Finite (54 / 100)))]"
proof -
  let ?E = "demo_env\<lparr>deepface_verify := \<lambda>a b m. Inr (Finite (54 / 100))\<rparr>"
  let ?f1 = "demo_files(''uploads/u_g_license_cropped.png'' \<mapsto> [2])"
  let ?f2 = "?f1(''uploads/u_g_selfie_cropped.png'' \<mapsto> [2])"
  have v: "deepface_verify demo_env (?f2 ''uploads/u_g_license_cropped.png'')
             (?f2 ''uploads/u_g_selfie_cropped.png'') ''Facenet'' = Inr (Finite (6 / 10))"
    by (simp add: demo_env_def)
  have l: "extract_face ?E demo_files (Some ''uploads/u_g_license.png'') =
             (Inr (Some ''uploads/u_g_license_cropped.png'', None), ?f1)"
    by (simp add: demo_env_def demo_files_def imread_def Let_def)
  have s: "extract_face ?E ?f1 (Some ''uploads/u_g_selfie.png'') =
             (Inr (Some ''uploads/u_g_selfie_cropped.png'', None), ?f2)"
    by (simp add: demo_env_def demo_files_def imread_def Let_def)
  have w: "deepface_verify ?E (?f2 ''uploads/u_g_license_cropped.png'')
             (?f2 ''uploads/u_g_selfie_cropped.png'') ''Facenet'' = Inr (Finite (54 / 100))"
    by simp
  show ?thesis
    using threshold_decision [OF extract_face_demo_license extract_face_demo_selfie v]
      threshold_decision [OF l s w]
    by simp
qed

subsection \<open>The stages of the endpoint\<close>

lemma save_base64_image_cases:
  "(\<exists>e. save_base64_image E files b fn = ((None, Some e), files)) \<or>
   (\<exists>e left. save_base64_image E files b fn =
      ((None, Some e), files(path_join UPLOAD_FOLDER fn \<mapsto> left))) \<or>
   (\<exists>d. save_base64_image E files b fn =
      ((Some (path_join UPLOAD_FOLDER fn), None), files(path_join UPLOAD_FOLDER fn \<mapsto> d)))"
  by (auto simp: save_base64_image_def Let_def split: sum.splits option.splits)

lemma py_in_object: "py_in k data = Inr True \<Longrightarrow> data = JObj kvs \<Longrightarrow> \<exists>v. py_getitem data k = Inr v"
  by (auto simp: map_of_eq_None_iff split: option.splits)

lemma fields_missing_False:
  assumes "fields_missing data = Inr False"
  shows "py_in ''userId'' data = Inr True \<and> py_in ''license_base64'' data = Inr True \<and>
         py_in ''selfie_base64'' data = Inr True"
  using assms unfolding fields_missing_def
  by (simp split: sum.splits bool.splits)

lemma accepted_payload:
  assumes "fields_missing data = Inr False"
  shows "(\<exists>u l s. carries_required_fields data \<and> py_getitem data ''userId'' = Inr u \<and>
            py_getitem data ''license_base64'' = Inr l \<and> py_getitem data ''selfie_base64'' = Inr s)
         \<or> (\<not> carries_required_fields data \<and> (\<exists>e. py_getitem data ''userId'' = Inl e))"
proof (cases data)
  case (JObj kvs)
  have m: "py_in ''userId'' data = Inr True" "py_in ''license_base64'' data = Inr True"
    "py_in ''selfie_base64'' data = Inr True"
    using fields_missing_False [OF assms] by simp_all
  from m JObj have "carries_required_fields data" by simp
  then show ?thesis
    using py_in_object [OF m(1) JObj] py_in_object [OF m(2) JObj] py_in_object [OF m(3) JObj]
    by blast
qed (use fields_missing_False [OF assms] in simp_all)

lemma fields_missing_object:
  "fields_missing (JObj kvs) = Inr (\<not> carries_required_fields (JObj kvs))"
  by (auto simp: fields_missing_def split: bool.splits)

lemma fields_missing_cases:
  "\<not> carries_required_fields data \<Longrightarrow>
     fields_missing data = Inr True \<or> (\<exists>e. fields_missing data = Inl e) \<or>
     (fields_missing data = Inr False \<and> (\<exists>e. py_getitem data ''userId'' = Inl e))"
  using accepted_payload [of data]
  by (cases "fields_missing data") auto

lemma save_and_match_fields:
  assumes "py_getitem data ''license_base64'' = Inr l" "py_getitem data ''selfie_base64'' = Inr s"
  shows "save_and_match E files data u =
     (case save_base64_image E files l (license_filename E u) of
        ((lp, le), f1) \<Rightarrow>
          if truthy le
          then (Inr (error_response (''License image error: '' @ fstr_opt le) 400), f1)
          else (case save_base64_image E f1 s (selfie_filename E u) of
                  ((sp, se), f2) \<Rightarrow>
                    if truthy se
                    then (Inr (error_response (''Selfie image error: '' @ fstr_opt se) 400), f2)
                    else (case match_faces E f2 lp sp of
                            (Inl e, f3) \<Rightarrow> (Inl e, f3)
                          | (Inr result, f3) \<Rightarrow> (Inr (result, 200), f3))))"
  using assms unfolding save_and_match_def
  by (simp cong: prod.case_cong if_cong)

lemma verify_try_not_json:
  "\<not> is_json req \<Longrightarrow>
     verify_try E req files = (Inr (error_response ''Request must be JSON'' 400), files)"
  by (simp add: verify_try_def)

lemma verify_try_get_json_raises:
  "is_json req \<Longrightarrow> get_json req = Inl e \<Longrightarrow> verify_try E req files = (Inl e, files)"
  by (simp add: verify_try_def)

lemma verify_try_rejected:
  assumes "is_json req" "get_json req = Inr data" "\<not> carries_required_fields data"
  shows "verify_try E req files = (Inr (error_response ''Missing required fields'' 400), files) \<or>
         (\<exists>e. verify_try E req files = (Inl e, files))"
  using fields_missing_cases [OF assms(3)] assms(1,2)
  by (auto simp: verify_try_def)

lemma verify_try_accepted:
  assumes "is_json req" "get_json req = Inr data" "carries_required_fields data"
  shows "\<exists>u l s. py_getitem data ''userId'' = Inr u \<and> py_getitem data ''license_base64'' = Inr l \<and>
           py_getitem data ''selfie_base64'' = Inr s \<and>
           verify_try E req files = save_and_match E files data u"
proof -
  obtain kvs where d: "data = JObj kvs" using assms(3) by (cases data) simp_all
  have fm: "fields_missing data = Inr False" using assms(3) d fields_missing_object by simp
  from accepted_payload [OF fm] assms(3) obtain u l s where
    g: "py_getitem data ''userId'' = Inr u" "py_getitem data ''license_base64'' = Inr l"
       "py_getitem data ''selfie_base64'' = Inr s" by blast
  have "verify_try E req files = save_and_match E files data u"
    using assms(1,2) fm g(1) by (simp add: verify_try_def)
  with g show ?thesis by blast
qed

lemma save_and_match_cases:
  assumes "py_getitem data ''license_base64'' = Inr l" "py_getitem data ''selfie_base64'' = Inr s"
  shows "(\<exists>m f1. m \<noteq> [] \<and> save_and_match E files data u =
            (Inr (error_response (''License image error: '' @ m) 400), f1)) \<or>
         (\<exists>m f2. m \<noteq> [] \<and> save_and_match E files data u =
            (Inr (error_response (''Selfie image error: '' @ m) 400), f2)) \<or>
         (\<exists>lp sp f2 r f3. match_faces E f2 lp sp = (Inr r, f3) \<and>
            save_and_match E files data u = (Inr (r, 200), f3))"
proof -
  obtain lp le f1 where a: "save_base64_image E files l (license_filename E u) = ((lp, le), f1)"
    by (metis prod.exhaust)
  obtain sp se f2 where b: "save_base64_image E f1 s (selfie_filename E u) = ((sp, se), f2)"
    by (metis prod.exhaust)
  note sm = save_and_match_fields [OF assms, of E files u]
  show ?thesis
  proof (cases "truthy le")
    case True
    then obtain m where m: "le = Some m" "m \<noteq> []" by (cases le) auto
    have "save_and_match E files data u =
            (Inr (error_response (''License image error: '' @ m) 400), f1)"
      using a True m by (simp add: sm)
    then show ?thesis using m(2) by blast
  next
    case False
    note nl = this
    show ?thesis
    proof (cases "truthy se")
      case True
      then obtain m where m: "se = Some m" "m \<noteq> []" by (cases se) auto
      have "save_and_match E files data u =
              (Inr (error_response (''Selfie image error: '' @ m) 400), f2)"
        using a b True nl m by (simp add: sm)
      then show ?thesis using m(2) by blast
    next
      case False
      obtain r f3 where m: "match_faces E f2 lp sp = (Inr r, f3)"
        using match_faces_returns by blast
      have "save_and_match E files data u = (Inr (r, 200), f3)"
        using a b False nl m by (simp add: sm)
      with m show ?thesis by blast
    qed
  qed
qed

lemma error_response_verified:
  "map_of (fst (error_response m st)) ''verified'' = Some (JBool False)"
  "map_of (fst (error_response m st)) ''similarity_score'' = None"
  "snd (error_response m st) = st"
  by (simp_all add: error_response_def)

lemma verify_not_json:
  "\<not> is_json req \<Longrightarrow> verify E req files = (error_response ''Request must be JSON'' 400, files)"
  by (simp add: verify_def verify_try_not_json)

lemma verify_rejected:
  assumes "is_json req" "get_json req = Inr data" "\<not> carries_required_fields data"
  shows "verify E req files = (error_response ''Missing required fields'' 400, files) \<or>
         (\<exists>e. verify E req files = (error_response (''Server error: '' @ e) 500, files))"
  using verify_try_rejected [OF assms, of E files] by (auto simp: verify_def)

lemma verify_accepted:
  assumes "is_json req" "get_json req = Inr data" "carries_required_fields data"
  shows "(\<exists>m f1. m \<noteq> [] \<and> verify E req files =
            (error_response (''License image error: '' @ m) 400, f1)) \<or>
         (\<exists>m f2. m \<noteq> [] \<and> verify E req files =
            (error_response (''Selfie image error: '' @ m) 400, f2)) \<or>
         (\<exists>lp sp f2 r f3. match_faces E f2 lp sp = (Inr r, f3) \<and>
            verify E req files = ((r, 200), f3))"
proof -
  from verify_try_accepted [OF assms, of E files] obtain u l s where
    g: "py_getitem data ''license_base64'' = Inr l" "py_getitem data ''selfie_base64'' = Inr s"
    and v: "verify_try E req files = save_and_match E files data u" by blast
  from save_and_match_cases [OF g, of E files u] consider
      (license) m f1 where "m \<noteq> []" "save_and_match E files data u =
            (Inr (error_response (''License image error: '' @ m) 400), f1)"
    | (selfie) m f2 where "m \<noteq> []" "save_and_match E files data u =
            (Inr (error_response (''Selfie image error: '' @ m) 400), f2)"
    | (matched) lp sp f2 r f3 where "match_faces E f2 lp sp = (Inr r, f3)"
        "save_and_match E files data u = (Inr (r, 200), f3)"
    by blast
  then show ?thesis
  proof cases
    case license
    have "verify E req files = (error_response (''License image error: '' @ m) 400, f1)"
      by (simp add: verify_def v license(2))
    then show ?thesis using license(1) by blast
  next
    case selfie
    have "verify E req files = (error_response (''Selfie image error: '' @ m) 400, f2)"
      by (simp add: verify_def v selfie(2))
    then show ?thesis using selfie(1) by blast
  next
    case matched
    have "verify E req files = ((r, 200), f3)"
      by (simp add: verify_def v matched(2))
    with matched(1) show ?thesis by blast
  qed
qed



lemma threshold_result_keys:
  "map_of (threshold_result d) ''similarity_score'' = Some (JFloat d)"
  "map_of (threshold_result d) ''verified'' = Some (JBool (float_ge d SIMILARITY_THRESHOLD))"
  "map_of (threshold_result d) ''error'' =
     (if float_ge d SIMILARITY_THRESHOLD then None else Some (JStr ''Face verification failed''))"
  by (simp_all add: threshold_result_def)

lemma match_faces_scored:
  assumes "extract_face E files lp = (Inr (Some lf, e1), files1)"
    and "extract_face E files1 sp = (Inr (Some sf, e2), files2)"
    and "deepface_verify E (files2 lf) (files2 sf) ''Facenet'' = Inr d"
  shows "match_faces E files lp sp = (Inr (threshold_result d), files2)"
  using assms by (simp add: match_faces_def match_faces_try_def)


subsection \<open>Where a score can appear\<close>

text \<open>
  C2. A similarity score is present in what \<open>match_faces\<close> returns if and only if both
  faces were extracted and the scoring capability returned a distance; a result of a
  successful comparison (verified) carries no error; and a response of the endpoint that
  holds a score is a result of \<open>match_faces\<close>, sent with status 200. (The one result with
  both an error and a score is the not-verified one of line 95, where the comparison was
  made and failed.)
\<close>

theorem score_only_after_scoring:
  "((\<exists>r v. fst (match_faces E files lp sp) = Inr r \<and> map_of r ''similarity_score'' = Some v) \<longleftrightarrow>
    (\<exists>lf e1 files1 sf e2 files2 d.
       extract_face E files lp = (Inr (Some lf, e1), files1) \<and>
       extract_face E files1 sp = (Inr (Some sf, e2), files2) \<and>
       deepface_verify E (files2 lf) (files2 sf) ''Facenet'' = Inr d)) \<and>
   (\<forall>r. fst (match_faces E files lp sp) = Inr r \<and>
        map_of r ''verified'' = Some (JBool True) \<longrightarrow>
      map_of r ''error'' = None) \<and>
   ((\<exists>v. map_of (fst (fst (verify E req files))) ''similarity_score'' = Some v) \<longrightarrow>
      snd (fst (verify E req files)) = 200 \<and>
      (\<exists>lp' sp' f2. fst (match_faces E f2 lp' sp') = Inr (fst (fst (verify E req files)))))"
proof (intro conjI)
  show "(\<exists>r v. fst (match_faces E files lp sp) = Inr r \<and> map_of r ''similarity_score'' = Some v) \<longleftrightarrow>
    (\<exists>lf e1 files1 sf e2 files2 d.
       extract_face E files lp = (Inr (Some lf, e1), files1) \<and>
       extract_face E files1 sp = (Inr (Some sf, e2), files2) \<and>
       deepface_verify E (files2 lf) (files2 sf) ''Facenet'' = Inr d)"
  proof
    assume "\<exists>r v. fst (match_faces E files lp sp) = Inr r \<and>
              map_of r ''similarity_score'' = Some v"
    with match_faces_shapes [of E files lp sp]
    show "\<exists>lf e1 files1 sf e2 files2 d.
       extract_face E files lp = (Inr (Some lf, e1), files1) \<and>
       extract_face E files1 sp = (Inr (Some sf, e2), files2) \<and>
       deepface_verify E (files2 lf) (files2 sf) ''Facenet'' = Inr d"
      by auto
  next
    assume "\<exists>lf e1 files1 sf e2 files2 d.
       extract_face E files lp = (Inr (Some lf, e1), files1) \<and>
       extract_face E files1 sp = (Inr (Some sf, e2), files2) \<and>
       deepface_verify E (files2 lf) (files2 sf) ''Facenet'' = Inr d"
    then obtain lf e1 files1 sf e2 files2 d where
      "extract_face E files lp = (Inr (Some lf, e1), files1)"
      "extract_face E files1 sp = (Inr (Some sf, e2), files2)"
      "deepface_verify E (files2 lf) (files2 sf) ''Facenet'' = Inr d" by blast
    then have "fst (match_faces E files lp sp) = Inr (threshold_result d)"
      by (simp add: match_faces_scored)
    then show "\<exists>r v. fst (match_faces E files lp sp) = Inr r \<and>
                 map_of r ''similarity_score'' = Some v"
      using threshold_result_keys(1) by blast
  qed
next
  show "\<forall>r. fst (match_faces E files lp sp) = Inr r \<and>
        map_of r ''verified'' = Some (JBool True) \<longrightarrow>
      map_of r ''error'' = None"
    using match_faces_shapes [of E files lp sp]
    by (auto simp: threshold_result_keys)
next
  show "(\<exists>v. map_of (fst (fst (verify E req files))) ''similarity_score'' = Some v) \<longrightarrow>
      snd (fst (verify E req files)) = 200 \<and>
      (\<exists>lp' sp' f2. fst (match_faces E f2 lp' sp') = Inr (fst (fst (verify E req files))))"
  proof (cases "is_json req")
    case False
    then show ?thesis by (simp add: verify_not_json error_response_verified)
  next
    case True
    show ?thesis
    proof (cases "get_json req")
      case (Inl e)
      then show ?thesis using True
        by (simp add: verify_def verify_try_get_json_raises error_response_verified)
    next
      case (Inr data)
      show ?thesis
      proof (cases "carries_required_fields data")
        case False
        from verify_rejected [OF True Inr False, of E files] show ?thesis
          by (auto simp: error_response_verified)
      next
        case c: True
        from verify_accepted [OF True Inr c, of E files] consider
            (license) m f1 where
              "verify E req files = (error_response (''License image error: '' @ m) 400, f1)"
          | (selfie) m f2 where
              "verify E req files = (error_response (''Selfie image error: '' @ m) 400, f2)"
          | (matched) lp' sp' f2 r f3 where "match_faces E f2 lp' sp' = (Inr r, f3)"
              "verify E req files = ((r, 200), f3)"
          by blast
        then show ?thesis
        proof cases
          case license
          then show ?thesis by (simp add: error_response_verified)
        next
          case selfie
          then show ?thesis by (simp add: error_response_verified)
        next
          case matched
          have "snd (fst (verify E req files)) = 200"
            "fst (match_faces E f2 lp' sp') = Inr (fst (fst (verify E req files)))"
            by (simp_all add: matched)
          then show ?thesis by blast
        qed
      qed
    qed
  qed
qed

lemma match_faces_demo:
  "match_faces demo_env demo_files (Some ''uploads/u_g_license.png'')
     (Some ''uploads/u_g_selfie.png'') =
   (Inr [(''verified'', JBool True), (''similarity_score'', JFloat (Finite (6 / 10)))],
    demo_files(''uploads/u_g_license_cropped.png'' \<mapsto> [2],
               ''uploads/u_g_selfie_cropped.png'' \<mapsto> [2]))"
proof -
  let ?f2 = "demo_files(''uploads/u_g_license_cropped.png'' \<mapsto> [2],
                        ''uploads/u_g_selfie_cropped.png'' \<mapsto> [2])"
  have "deepface_verify demo_env (?f2 ''uploads/u_g_license_cropped.png'')
          (?f2 ''uploads/u_g_selfie_cropped.png'') ''Facenet'' = Inr (Finite (6 / 10))"
    by (simp add: demo_env_def)
  then have "match_faces demo_env demo_files (Some ''uploads/u_g_license.png'')
     (Some ''uploads/u_g_selfie.png'') = (Inr (threshold_result (Finite (6 / 10))), ?f2)"
    by (rule match_faces_scored [where ?files2.0 = ?f2,
          OF extract_face_demo_license extract_face_demo_selfie])
  moreover have "threshold_result (Finite (6 / 10)) =
      [(''verified'', JBool True), (''similarity_score'', JFloat (Finite (6 / 10)))]"
    by (simp add: threshold_result_def SIMILARITY_THRESHOLD_def)
  ultimately show ?thesis by (simp only:)
qed

theorem score_only_after_scoring_witness:
  "fst (match_faces demo_env demo_files (Some ''uploads/u_g_license.png'')
            (Some ''uploads/u_g_selfie.png'')) =
     Inr [(''verified'', JBool True), (''similarity_score'', JFloat (Finite (6 / 10)))] \<and>
   (\<exists>r v. fst (match_faces demo_env demo_files (Some ''uploads/u_g_license.png'')
            (Some ''uploads/u_g_selfie.png'')) = Inr r \<and>
          map_of r ''similarity_score'' = Some v) \<and>
   (\<exists>lf e1 files1 sf e2 files2 d.
       extract_face demo_env demo_files (Some ''uploads/u_g_license.png'') =
         (Inr (Some lf, e1), files1) \<and>
       extract_face demo_env files1 (Some ''uploads/u_g_selfie.png'') =
         (Inr (Some sf, e2), files2) \<and>
       deepface_verify demo_env (files2 lf) (files2 sf) ''Facenet'' = Inr d)"
  using score_only_after_scoring [of demo_env demo_files "Some ''uploads/u_g_license.png''"
      "Some ''uploads/u_g_selfie.png''"]
  by (simp add: match_faces_demo)

lemma verify_status_500:
  assumes "snd (fst (verify E req files)) = 500"
  shows "snd (verify E req files) = files \<and>
         (\<exists>e. fst (verify E req files) = error_response (''Server error: '' @ e) 500) \<and>
         is_json req \<and>
         ((\<exists>e. get_json req = Inl e) \<or>
          (\<exists>data. get_json req = Inr data \<and> \<not> carries_required_fields data))"
proof (cases "is_json req")
  case False
  then show ?thesis using assms by (simp add: verify_not_json error_response_verified)
next
  case True
  show ?thesis
  proof (cases "get_json req")
    case (Inl e)
    have "verify E req files = (error_response (''Server error: '' @ e) 500, files)"
      using True Inl by (simp add: verify_def verify_try_get_json_raises)
    then show ?thesis using True Inl by auto
  next
    case (Inr data)
    show ?thesis
    proof (cases "carries_required_fields data")
      case False
      from verify_rejected [OF True Inr False, of E files] assms True Inr False
      show ?thesis by (auto simp: error_response_verified)
    next
      case c: True
      from verify_accepted [OF True Inr c, of E files] assms
      show ?thesis by (auto simp: error_response_verified)
    qed
  qed
qed

lemma verify_null: "verify E null_request files =
   (error_response (''Server error: '' @ ''argument of type '' @ [CHR 0x27] @ ''NoneType'' @ [CHR 0x27] @ '' is not iterable'') 500, files)"
  by (simp add: verify_def verify_try_def null_request_def fields_missing_def)

subsection \<open>match_faces returns, whatever happens inside\<close>

lemma save_and_match_raises:
  assumes "save_and_match E files data u = (Inl e, f)"
  shows "py_getitem data ''license_base64'' = Inl e \<or> py_getitem data ''selfie_base64'' = Inl e"
proof (cases "py_getitem data ''license_base64''")
  case (Inl e')
  then show ?thesis using assms by (simp add: save_and_match_def)
next
  case l: (Inr l)
  show ?thesis
  proof (cases "py_getitem data ''selfie_base64''")
    case (Inl e')
    then show ?thesis using assms l
      by (auto simp: save_and_match_def split: prod.splits if_splits)
  next
    case (Inr s)
    from save_and_match_cases [OF l Inr, of E files u] assms show ?thesis by auto
  qed
qed

text \<open>
  C9. \<open>match_faces\<close> is total at its boundary: for every pair of paths the call returns,
  and what it returns is a dictionary with a boolean under \<open>verified\<close>. Every exception of
  the face extraction of the license, of the face extraction of the selfie and of the
  scorer is caught and becomes the not-verified result with the message
  \<open>Processing error: ...\<close>. So the server-error branch of the endpoint is not reached from
  \<open>match_faces\<close>: the steps of lines 121 to 136 raise only through a look-up in the
  payload, and a response with status 500 comes from a request that never got to
  \<open>match_faces\<close>, because \<open>get_json\<close> raised or the payload was not an object with the
  three fields; no file has been written then.
\<close>

theorem match_faces_total:
  "(\<exists>r b. fst (match_faces E files lp sp) = Inr r \<and> map_of r ''verified'' = Some (JBool b)) \<and>
   (\<forall>e f1. extract_face E files lp = (Inl e, f1) \<longrightarrow>
      match_faces E files lp sp =
        (Inr [(''verified'', JBool False), (''error'', JStr (''Processing error: '' @ e))], f1)) \<and>
   (\<forall>lf e1 f1 e f2.
      extract_face E files lp = (Inr (Some lf, e1), f1) \<and> extract_face E f1 sp = (Inl e, f2) \<longrightarrow>
      match_faces E files lp sp =
        (Inr [(''verified'', JBool False), (''error'', JStr (''Processing error: '' @ e))], f2)) \<and>
   (\<forall>lf e1 f1 sf e2 f2 e.
      extract_face E files lp = (Inr (Some lf, e1), f1) \<and>
      extract_face E f1 sp = (Inr (Some sf, e2), f2) \<and>
      deepface_verify E (f2 lf) (f2 sf) ''Facenet'' = Inl e \<longrightarrow>
      match_faces E files lp sp =
        (Inr [(''verified'', JBool False), (''error'', JStr (''Processing error: '' @ e))], f2)) \<and>
   (\<forall>data u e f. save_and_match E files data u = (Inl e, f) \<longrightarrow>
      py_getitem data ''license_base64'' = Inl e \<or> py_getitem data ''selfie_base64'' = Inl e) \<and>
   (snd (fst (verify E req files)) = 500 \<longrightarrow>
      snd (verify E req files) = files \<and>
      ((\<exists>e. get_json req = Inl e) \<or>
       (\<exists>data. get_json req = Inr data \<and> \<not> carries_required_fields data)))"
proof (intro conjI allI impI)
  show "\<exists>r b. fst (match_faces E files lp sp) = Inr r \<and> map_of r ''verified'' = Some (JBool b)"
    using match_faces_shapes [of E files lp sp] by (auto simp: threshold_result_keys)
next
  fix e f1 assume "extract_face E files lp = (Inl e, f1)"
  then show "match_faces E files lp sp =
        (Inr [(''verified'', JBool False), (''error'', JStr (''Processing error: '' @ e))], f1)"
    by (simp add: match_faces_def match_faces_try_def)
next
  fix lf e1 f1 e f2
  assume "extract_face E files lp = (Inr (Some lf, e1), f1) \<and> extract_face E f1 sp = (Inl e, f2)"
  then show "match_faces E files lp sp =
        (Inr [(''verified'', JBool False), (''error'', JStr (''Processing error: '' @ e))], f2)"
    by (simp add: match_faces_def match_faces_try_def)
next
  fix lf e1 f1 sf e2 f2 e
  assume "extract_face E files lp = (Inr (Some lf, e1), f1) \<and>
      extract_face E f1 sp = (Inr (Some sf, e2), f2) \<and>
      deepface_verify E (f2 lf) (f2 sf) ''Facenet'' = Inl e"
  then show "match_faces E files lp sp =
        (Inr [(''verified'', JBool False), (''error'', JStr (''Processing error: '' @ e))], f2)"
    by (simp add: match_faces_def match_faces_try_def)
next
  fix data u e f assume "save_and_match E files data u = (Inl e, f)"
  then show "py_getitem data ''license_base64'' = Inl e \<or> py_getitem data ''selfie_base64'' = Inl e"
    by (rule save_and_match_raises)
next
  assume "snd (fst (verify E req files)) = 500"
  then show "snd (verify E req files) = files"
    "(\<exists>e. get_json req = Inl e) \<or>
     (\<exists>data. get_json req = Inr data \<and> \<not> carries_required_fields data)"
    using verify_status_500 [of E req files] by blast+
qed

theorem match_faces_total_witness:
  "match_faces (demo_env\<lparr>deepface_verify := \<lambda>a b m. Inl ''Face could not be detected''\<rparr>)
     demo_files (Some ''uploads/u_g_license.png'') (Some ''uploads/u_g_selfie.png'') =
     (Inr [(''verified'', JBool False),
           (''error'', JStr ''Processing error: Face could not be detected'')],
      demo_files(''uploads/u_g_license_cropped.png'' \<mapsto> [2],
                 ''uploads/u_g_selfie_cropped.png'' \<mapsto> [2])) \<and>
   snd (fst (verify demo_env null_request Map.empty)) = 500 \<and>
   snd (verify demo_env null_request Map.empty) = Map.empty \<and>
   get_json null_request = Inr JNull"
proof -
  let ?E = "demo_env\<lparr>deepface_verify := \<lambda>a b m. Inl ''Face could not be detected''\<rparr>"
  let ?f1 = "demo_files(''uploads/u_g_license_cropped.png'' \<mapsto> [2])"
  let ?f2 = "?f1(''uploads/u_g_selfie_cropped.png'' \<mapsto> [2])"
  have l: "extract_face ?E demo_files (Some ''uploads/u_g_license.png'') =
             (Inr (Some ''uploads/u_g_license_cropped.png'', None), ?f1)"
    by (simp add: demo_env_def demo_files_def imread_def Let_def)
  have s: "extract_face ?E ?f1 (Some ''uploads/u_g_selfie.png'') =
             (Inr (Some ''uploads/u_g_selfie_cropped.png'', None), ?f2)"
    by (simp add: demo_env_def demo_files_def imread_def Let_def)
  have w: "deepface_verify ?E (?f2 ''uploads/u_g_license_cropped.png'')
             (?f2 ''uploads/u_g_selfie_cropped.png'') ''Facenet'' = Inl ''Face could not be detected''"
    by simp
  have g: "get_json null_request = Inr JNull" by (simp add: null_request_def)
  note t = match_faces_total [of ?E demo_files "Some ''uploads/u_g_license.png''"
      "Some ''uploads/u_g_selfie.png''"]
  have a: "match_faces ?E demo_files (Some ''uploads/u_g_license.png'')
      (Some ''uploads/u_g_selfie.png'') =
     (Inr [(''verified'', JBool False),
           (''error'', JStr (''Processing error: '' @ ''Face could not be detected''))], ?f2)"
    using t l s w by blast
  have b: "snd (fst (verify demo_env null_request Map.empty)) = 500"
    "snd (verify demo_env null_request Map.empty) = Map.empty"
    by (simp_all add: verify_null error_response_def)
  show ?thesis using a b g by simp
qed

subsection \<open>Payloads without the required fields\<close>

lemma missing_fields_rejected:
  assumes "is_json req" "get_json req = Inr data" "fields_missing data = Inr True"
  shows "verify E req files = (error_response ''Missing required fields'' 400, files)"
  using assms by (simp add: verify_def verify_try_def)

lemma object_missing_fields_rejected:
  assumes "is_json req" "get_json req = Inr (JObj kvs)"
    "\<not> carries_required_fields (JObj kvs)"
  shows "verify E req files = (error_response ''Missing required fields'' 400, files)"
  using assms fields_missing_object [of kvs]
  by (simp add: missing_fields_rejected)

lemma rejected_payload_writes_nothing:
  assumes "is_json req" "get_json req = Inr data" "\<not> carries_required_fields data"
  shows "snd (verify E req files) = files \<and>
         map_of (fst (fst (verify E req files))) ''verified'' = Some (JBool False)"
  using verify_rejected [OF assms, of E files] by (auto simp: error_response_verified)

lemma object_missing_fields_demo:
  "verify demo_env
     \<lparr>is_json = True,
      get_json = Inr (JObj [(''userId'', JStr ''u1''), (''selfie_base64'', JStr ''AQ=='')])\<rparr>
     Map.empty = (error_response ''Missing required fields'' 400, Map.empty)"
  by (rule object_missing_fields_rejected) auto

text \<open>
  C3. The claim holds wherever the field test of line 114 gives an answer: a payload in
  which it finds a field missing (every JSON object without one of the three keys, but
  also an array or a string without the three names) is answered with
  \<open>Missing required fields\<close> and status 400, and no payload that is not an object with the
  three fields makes the endpoint write a file (the three lemmas above). The code breaks
  the claim for a payload on which the test itself raises. The body \<open>null\<close> is such a
  payload: \<open>'userId' not in None\<close> raises a \<open>TypeError\<close>, the handler of line 138 catches
  it, and the answer is the server error with status 500 instead of the missing-fields
  failure. Nothing is written.
\<close>

theorem null_payload_server_error:
  "is_json null_request \<and> get_json null_request = Inr JNull \<and>
   fields_missing JNull = Inl (''argument of type '' @ [CHR 0x27] @ ''NoneType'' @ [CHR 0x27] @
                               '' is not iterable'') \<and>
   snd (fst (verify demo_env null_request Map.empty)) = 500 \<and>
   fst (verify demo_env null_request Map.empty) \<noteq> error_response ''Missing required fields'' 400 \<and>
   snd (verify demo_env null_request Map.empty) = Map.empty"
  by (simp add: verify_null error_response_def) (simp add: null_request_def fields_missing_def)





subsection \<open>The status of a response\<close>


lemmas demo_defs = demo_env_def demo_request_def verify_def verify_try_def save_and_match_def
  save_base64_image_def fields_missing_def license_filename_def selfie_filename_def
  path_join_def UPLOAD_FOLDER_def error_response_def Let_def


lemma verify_demo_bad_selfie:
  "verify demo_env (demo_request (JStr ''QUJD'') (JStr ''A'')) Map.empty =
     (error_response (''Selfie image error: Invalid base64-encoded string: number of data characters (1) cannot be 1 more than a multiple of 4'') 400,
      [''uploads/u1_8ab6788b-d739-481d-9404-775a683c2e9e_license.png'' \<mapsto> [0x41, 0x42, 0x43]])"
  by (simp add: demo_defs)





subsection \<open>A document that cannot be used\<close>








subsection \<open>The data-URI prefix\<close>

lemma py_split_Cons:
  "py_split sep s =
     takeWhile (\<lambda>c. c \<noteq> sep) s #
       (if sep \<in> set s then py_split sep (drop 1 (dropWhile (\<lambda>c. c \<noteq> sep) s)) else [])"
  by (induction s) (auto split: list.splits)

lemma base64_data_prefixed:
  assumes "prefix ''data:image'' s"
  shows "base64_data (JStr s) =
           (if CHR '','' \<in> set s
            then Inr (takeWhile (\<lambda>c. c \<noteq> CHR '','') (after_first_comma s))
            else Inl ''list index out of range'')"
proof (cases "CHR '','' \<in> set s")
  case True
  have "py_split (CHR '','') s =
          takeWhile (\<lambda>c. c \<noteq> CHR '','') s # py_split (CHR '','') (after_first_comma s)"
    using True py_split_Cons [of "CHR '',''" s] by (simp add: after_first_comma_def)
  also have "py_split (CHR '','') (after_first_comma s) =
          takeWhile (\<lambda>c. c \<noteq> CHR '','') (after_first_comma s) #
            (if CHR '','' \<in> set (after_first_comma s)
             then py_split (CHR '','') (drop 1 (dropWhile (\<lambda>c. c \<noteq> CHR '','') (after_first_comma s)))
             else [])"
    by (rule py_split_Cons)
  finally show ?thesis using assms True by simp
next
  case False
  have "py_split (CHR '','') s = [takeWhile (\<lambda>c. c \<noteq> CHR '','') s]"
    using False py_split_Cons [of "CHR '',''" s] by simp
  then show ?thesis using assms False by simp
qed

lemma takeWhile_all: "x \<notin> set xs \<Longrightarrow> takeWhile (\<lambda>c. c \<noteq> x) xs = xs"
  by (induction xs) auto

text \<open>
  C6, as amended. An optional data-URI prefix is stripped before decoding: if the string
  starts with \<open>data:image\<close>, only the segment between its first comma and the next comma
  (or the end of the string) is base64-decoded and written, which is the whole portion
  after the first comma when that portion holds no further comma; a string with the
  prefix and no comma yields an image error and no file; a string without the prefix is
  decoded whole; and a payload the decoder rejects yields an image error rather than a
  saved file. (The decoded bytes are the content of the saved file when the file could
  be opened and written.)
\<close>

theorem data_uri_prefix:
  "(prefix ''data:image'' s \<and> CHR '','' \<in> set s \<longrightarrow>
      base64_data (JStr s) = Inr (takeWhile (\<lambda>c. c \<noteq> CHR '','') (after_first_comma s))) \<and>
   (prefix ''data:image'' s \<and> CHR '','' \<in> set s \<and> CHR '','' \<notin> set (after_first_comma s) \<longrightarrow>
      base64_data (JStr s) = Inr (after_first_comma s)) \<and>
   (prefix ''data:image'' s \<and> CHR '','' \<notin> set s \<longrightarrow>
      save_base64_image E files (JStr s) filename =
        ((None, Some ''list index out of range''), files)) \<and>
   (\<not> prefix ''data:image'' s \<longrightarrow> base64_data (JStr s) = Inr s) \<and>
   (\<forall>d e. base64_data (JStr s) = Inr d \<and> b64decode E d = Inl e \<longrightarrow>
      save_base64_image E files (JStr s) filename = ((None, Some e), files)) \<and>
   (\<forall>d b. base64_data (JStr s) = Inr d \<and> b64decode E d = Inr b \<and>
      open_wb E (path_join UPLOAD_FOLDER filename) = None \<and>
      fwrite E (path_join UPLOAD_FOLDER filename) b = None \<longrightarrow>
      save_base64_image E files (JStr s) filename =
        ((Some (path_join UPLOAD_FOLDER filename), None),
         files(path_join UPLOAD_FOLDER filename \<mapsto> b)))"
proof (intro conjI impI allI)
  assume "prefix ''data:image'' s \<and> CHR '','' \<in> set s"
  then have p: "prefix ''data:image'' s" and c: "CHR '','' \<in> set s" by simp_all
  show "base64_data (JStr s) = Inr (takeWhile (\<lambda>c. c \<noteq> CHR '','') (after_first_comma s))"
    using base64_data_prefixed [OF p] c by (simp only: if_True)
next
  assume "prefix ''data:image'' s \<and> CHR '','' \<in> set s \<and> CHR '','' \<notin> set (after_first_comma s)"
  then have p: "prefix ''data:image'' s" and c: "CHR '','' \<in> set s"
    and n: "CHR '','' \<notin> set (after_first_comma s)" by simp_all
  show "base64_data (JStr s) = Inr (after_first_comma s)"
    using base64_data_prefixed [OF p] c takeWhile_all [OF n] by (simp only: if_True)
next
  assume "prefix ''data:image'' s \<and> CHR '','' \<notin> set s"
  then have p: "prefix ''data:image'' s" and c: "CHR '','' \<notin> set s" by simp_all
  have "base64_data (JStr s) = Inl ''list index out of range''"
    using base64_data_prefixed [OF p] c by (simp only: if_False)
  then show "save_base64_image E files (JStr s) filename =
        ((None, Some ''list index out of range''), files)"
    by (simp add: save_base64_image_def)
next
  assume "\<not> prefix ''data:image'' s"
  then show "base64_data (JStr s) = Inr s" by simp
next
  fix d e assume "base64_data (JStr s) = Inr d \<and> b64decode E d = Inl e"
  then show "save_base64_image E files (JStr s) filename = ((None, Some e), files)"
    by (simp add: save_base64_image_def)
next
  fix d b assume "base64_data (JStr s) = Inr d \<and> b64decode E d = Inr b \<and>
      open_wb E (path_join UPLOAD_FOLDER filename) = None \<and>
      fwrite E (path_join UPLOAD_FOLDER filename) b = None"
  then show "save_base64_image E files (JStr s) filename =
        ((Some (path_join UPLOAD_FOLDER filename), None),
         files(path_join UPLOAD_FOLDER filename \<mapsto> b))"
    by (simp add: save_base64_image_def Let_def)
qed

text \<open>
  The claim as stated fails for a string with a second comma: line 31 takes the piece
  between the first two commas, not the portion after the first. The decoder accepts
  that portion too (it skips the comma) and gives other bytes than the ones saved.
\<close>

theorem data_uri_prefix_counterexample:
  "prefix ''data:image'' ''data:image/png;base64,QUJD,REVG'' \<and>
   after_first_comma ''data:image/png;base64,QUJD,REVG'' = ''QUJD,REVG'' \<and>
   base64_data (JStr ''data:image/png;base64,QUJD,REVG'') = Inr ''QUJD'' \<and>
   b64decode demo_env (after_first_comma ''data:image/png;base64,QUJD,REVG'') =
     Inr [0x41, 0x42, 0x43, 0x44, 0x45, 0x46] \<and>
   save_base64_image demo_env Map.empty (JStr ''data:image/png;base64,QUJD,REVG'') ''f.png'' =
     ((Some ''uploads/f.png'', None), [''uploads/f.png'' \<mapsto> [0x41, 0x42, 0x43]])"
  by (simp add: after_first_comma_def save_base64_image_def demo_env_def path_join_def
      UPLOAD_FOLDER_def Let_def)

theorem data_uri_prefix_witness:
  "base64_data (JStr ''data:image/png;base64,QUJD'') = Inr ''QUJD'' \<and>
   after_first_comma ''data:image/png;base64,QUJD'' = ''QUJD'' \<and>
   save_base64_image demo_env Map.empty (JStr ''data:image/png;base64,QUJD'') ''f.png'' =
     ((Some ''uploads/f.png'', None), [''uploads/f.png'' \<mapsto> [0x41, 0x42, 0x43]]) \<and>
   save_base64_image demo_env Map.empty (JStr ''data:image/png;base64'') ''f.png'' =
     ((None, Some ''list index out of range''), Map.empty) \<and>
   save_base64_image demo_env Map.empty (JStr ''A'') ''f.png'' =
     ((None, Some ''Invalid base64-encoded string: number of data characters (1) cannot be 1 more than a multiple of 4''), Map.empty)"
  using data_uri_prefix [of "''data:image/png;base64,QUJD''" demo_env Map.empty "''f.png''"]
    data_uri_prefix [of "''data:image/png;base64''" demo_env Map.empty "''f.png''"]
    data_uri_prefix [of "''A''" demo_env Map.empty "''f.png''"]
  by (simp add: after_first_comma_def demo_env_def path_join_def UPLOAD_FOLDER_def)

subsection \<open>The face locator\<close>

lemma extract_face_not_found_iff:
  "fst (extract_face E files ip) = Inr (None, Some ''No face detected in the image'') \<longleftrightarrow>
   (\<exists>p img. ip = Some p \<and> imread E files p = Some img \<and>
      detectMultiScale E (cvtColor E img) (11 / 10) 5 (50, 50) = Inr [])"
  by (cases ip) (auto simp: Let_def split: option.splits sum.splits list.splits)

lemma extract_face_first_region:
  assumes "imread E files p = Some img"
    and "detectMultiScale E (cvtColor E img) (11 / 10) 5 (50, 50) = Inr (b # rest)"
  shows "extract_face E files (Some p) =
           (case imwrite E (replace_dot p) (crop img b) of
              Inl e \<Rightarrow> (Inl e, files)
            | Inr None \<Rightarrow> (Inr (Some (replace_dot p), None), files)
            | Inr (Some encoded) \<Rightarrow>
                (Inr (Some (replace_dot p), None), files(replace_dot p \<mapsto> encoded)))"
  using assms by (simp add: Let_def)

lemma extract_face_detector_query:
  assumes "\<forall>g. d' g (11 / 10) 5 (50, 50) = detectMultiScale E g (11 / 10) 5 (50, 50)"
  shows "extract_face (E\<lparr>detectMultiScale := d'\<rparr>) files ip = extract_face E files ip"
  using assms by (cases ip) (auto simp: imread_def Let_def split: option.splits sum.splits list.splits)

text \<open>
  C7. The face locator fails with the not-found error exactly when the image was read
  and the detector returned no region. The detector is asked with \<open>scaleFactor\<close> 1.1,
  \<open>minNeighbors\<close> 5 and the minimum size 50 by 50, and with nothing else: replacing the
  detector by one that answers this query the same way changes nothing. When it returns
  one or more regions, the first of them, in the order the detector gave, is the one
  cropped and written. With a detector that honours the minimum size, the selected
  region is at least 50 by 50, so a smaller face is never selected.
\<close>

theorem face_locator:
  "(fst (extract_face E files ip) = Inr (None, Some ''No face detected in the image'') \<longleftrightarrow>
    (\<exists>p img. ip = Some p \<and> imread E files p = Some img \<and>
       detectMultiScale E (cvtColor E img) (11 / 10) 5 (50, 50) = Inr [])) \<and>
   (\<forall>p img b rest.
      imread E files p = Some img \<and>
      detectMultiScale E (cvtColor E img) (11 / 10) 5 (50, 50) = Inr (b # rest) \<longrightarrow>
      extract_face E files (Some p) =
        (case imwrite E (replace_dot p) (crop img b) of
           Inl e \<Rightarrow> (Inl e, files)
         | Inr None \<Rightarrow> (Inr (Some (replace_dot p), None), files)
         | Inr (Some encoded) \<Rightarrow>
             (Inr (Some (replace_dot p), None), files(replace_dot p \<mapsto> encoded)))) \<and>
   (\<forall>d'. (\<forall>g. d' g (11 / 10) 5 (50, 50) = detectMultiScale E g (11 / 10) 5 (50, 50)) \<longrightarrow>
      extract_face (E\<lparr>detectMultiScale := d'\<rparr>) files ip = extract_face E files ip) \<and>
   (\<forall>p img x y w h rest.
      honours_minSize (detectMultiScale E) \<and> imread E files p = Some img \<and>
      detectMultiScale E (cvtColor E img) (11 / 10) 5 (50, 50) = Inr ((x, y, w, h) # rest) \<longrightarrow>
      50 \<le> w \<and> 50 \<le> h)"
proof (intro conjI allI impI)
  show "fst (extract_face E files ip) = Inr (None, Some ''No face detected in the image'') \<longleftrightarrow>
    (\<exists>p img. ip = Some p \<and> imread E files p = Some img \<and>
       detectMultiScale E (cvtColor E img) (11 / 10) 5 (50, 50) = Inr [])"
    by (rule extract_face_not_found_iff)
next
  fix p img b rest
  assume "imread E files p = Some img \<and>
      detectMultiScale E (cvtColor E img) (11 / 10) 5 (50, 50) = Inr (b # rest)"
  then show "extract_face E files (Some p) =
        (case imwrite E (replace_dot p) (crop img b) of
           Inl e \<Rightarrow> (Inl e, files)
         | Inr None \<Rightarrow> (Inr (Some (replace_dot p), None), files)
         | Inr (Some encoded) \<Rightarrow>
             (Inr (Some (replace_dot p), None), files(replace_dot p \<mapsto> encoded)))"
    using extract_face_first_region by blast
next
  fix d' :: "gray \<Rightarrow> rat \<Rightarrow> nat \<Rightarrow> nat \<times> nat \<Rightarrow> exc + box list"
  assume "\<forall>g. d' g (11 / 10) 5 (50, 50) = detectMultiScale E g (11 / 10) 5 (50, 50)"
  then show "extract_face (E\<lparr>detectMultiScale := d'\<rparr>) files ip = extract_face E files ip"
    by (rule extract_face_detector_query)
next
  fix p img x y w h rest
  assume h: "honours_minSize (detectMultiScale E) \<and> imread E files p = Some img \<and>
      detectMultiScale E (cvtColor E img) (11 / 10) 5 (50, 50) = Inr ((x, y, w, h) # rest)"
  then have "int 50 \<le> w \<and> int 50 \<le> h"
    unfolding honours_minSize_def by (metis list.set_intros(1))
  then show "50 \<le> w" "50 \<le> h" by simp_all
qed

lemma demo_detector_honours_minSize: "honours_minSize (detectMultiScale demo_env)"
  by (auto simp: honours_minSize_def demo_env_def)

theorem face_locator_witness:
  "honours_minSize (detectMultiScale demo_env) \<and>
   imread demo_env demo_files ''uploads/u_g_license.png'' = Some demo_image \<and>
   detectMultiScale demo_env (cvtColor demo_env demo_image) (11 / 10) 5 (50, 50) =
     Inr [(5, 5, 50, 50), (0, 0, 60, 60)] \<and>
   extract_face demo_env demo_files (Some ''uploads/u_g_license.png'') =
     (Inr (Some ''uploads/u_g_license_cropped.png'', None),
      demo_files(''uploads/u_g_license_cropped.png'' \<mapsto> [2])) \<and>
   imwrite demo_env ''uploads/u_g_license_cropped.png'' (crop demo_image (5, 5, 50, 50)) =
     Inr (Some [2]) \<and>
   fst (extract_face (demo_env\<lparr>detectMultiScale := \<lambda>g (sf::rat) (mn::nat) (ms::nat \<times> nat). Inr []\<rparr>) demo_files
         (Some ''uploads/u_g_license.png'')) =
     Inr (None, Some ''No face detected in the image'')"
proof -
  let ?E0 = "demo_env\<lparr>detectMultiScale := \<lambda>g (sf::rat) (mn::nat) (ms::nat \<times> nat). Inr []\<rparr>"
  have a: "imread demo_env demo_files ''uploads/u_g_license.png'' = Some demo_image"
    by (simp add: imread_def demo_env_def demo_files_def)
  have b: "detectMultiScale demo_env (cvtColor demo_env demo_image) (11 / 10) 5 (50, 50) =
     Inr [(5, 5, 50, 50), (0, 0, 60, 60)]"
    by (simp add: demo_env_def)
  have c: "imwrite demo_env ''uploads/u_g_license_cropped.png'' (crop demo_image (5, 5, 50, 50)) =
     Inr (Some [2])"
    by (simp add: demo_env_def)
  have d: "imread ?E0 demo_files ''uploads/u_g_license.png'' = Some demo_image"
    by (simp add: imread_def demo_env_def demo_files_def)
  have e: "detectMultiScale ?E0 (cvtColor ?E0 demo_image) (11 / 10) 5 (50, 50) = Inr []"
    by simp
  show ?thesis
    using face_locator [of demo_env demo_files "Some ''uploads/u_g_license.png''"]
      face_locator [of ?E0 demo_files "Some ''uploads/u_g_license.png''"]
      a b c d e demo_detector_honours_minSize extract_face_demo_license
    by blast
qed

subsection \<open>The threshold as a double\<close>

text \<open>A finite double is below one half or a multiple of \<open>2 ^ -53\<close>; on all of these,
  comparing with the decimal 0.55 and comparing with the double nearest to it agree.\<close>

lemma threshold_on_doubles:
  fixes d :: rat
  assumes "d < 1 / 2 \<or> (\<exists>m :: int. d = of_int m / 2 ^ 53)"
  shows "float_ge (Finite d) SIMILARITY_THRESHOLD = float_ge (Finite d) (Finite nearest_double_0_55)"
proof -
  from assms show ?thesis
  proof
    assume "d < 1 / 2"
    then show ?thesis by (simp add: SIMILARITY_THRESHOLD_def nearest_double_0_55_def)
  next
    assume "\<exists>m :: int. d = of_int m / 2 ^ 53"
    then obtain m :: int where d: "d = of_int m / 2 ^ 53" by blast
    have a: "(55 / 100 \<le> d) = (4953959590107546 \<le> m)"
    proof -
      have "(55 / 100 \<le> d) = ((of_int (55 * 2 ^ 53) :: rat) \<le> of_int (100 * m))"
        unfolding d by (simp add: field_simps)
      also have "\<dots> = (55 * 2 ^ 53 \<le> 100 * m)" by (simp only: of_int_le_iff)
      also have "\<dots> = (4953959590107546 \<le> m)" by simp presburger
      finally show ?thesis .
    qed
    have b: "(nearest_double_0_55 \<le> d) = (4953959590107546 \<le> m)"
    proof -
      have "(nearest_double_0_55 \<le> d) = ((of_int 4953959590107546 :: rat) \<le> of_int m)"
        unfolding d nearest_double_0_55_def by (simp add: field_simps)
      also have "\<dots> = (4953959590107546 \<le> m)" by (simp only: of_int_le_iff)
      finally show ?thesis .
    qed
    show ?thesis using a b by (simp add: SIMILARITY_THRESHOLD_def)
  qed
qed

subsection \<open>What the functions do to the file system\<close>

lemma only_adds_refl: "only_adds ps f f"
  by (simp add: only_adds_def)

lemma only_adds_trans:
  "only_adds ps f g \<Longrightarrow> only_adds qs g h \<Longrightarrow> ps \<subseteq> rs \<Longrightarrow> qs \<subseteq> rs \<Longrightarrow> only_adds rs f h"
  unfolding only_adds_def by (metis subsetD)

lemma only_adds_update: "q \<in> ps \<Longrightarrow> only_adds ps f (f(q \<mapsto> d))"
  by (simp add: only_adds_def)

lemma save_base64_image_frame:
  "only_adds {path_join UPLOAD_FOLDER fn} files (snd (save_base64_image E files b fn))"
  using save_base64_image_cases [of E files b fn]
  by (auto simp: only_adds_refl only_adds_update)

lemma save_base64_image_path:
  "save_base64_image E files b fn = ((Some p, e), f1) \<Longrightarrow>
     p = path_join UPLOAD_FOLDER fn \<and> f1 p \<noteq> None"
  using save_base64_image_cases [of E files b fn] by auto

lemma extract_face_frame:
  "only_adds (replace_dot ` set_option ip) files (snd (extract_face E files ip))"
  by (cases ip)
    (auto simp: Let_def only_adds_refl only_adds_update split: option.splits sum.splits list.splits)

lemma match_faces_try_frame:
  "only_adds (replace_dot ` (set_option lp \<union> set_option sp)) files
     (snd (match_faces_try E files lp sp))"
proof -
  obtain r1 f1 where a: "extract_face E files lp = (r1, f1)" by (metis prod.exhaust)
  obtain r2 f2 where b: "extract_face E f1 sp = (r2, f2)" by (metis prod.exhaust)
  have fa: "only_adds (replace_dot ` set_option lp) files f1"
    using extract_face_frame [of lp files E] a by simp
  have fb: "only_adds (replace_dot ` set_option sp) f1 f2"
    using extract_face_frame [of sp f1 E] b by simp
  have fa': "only_adds (replace_dot ` (set_option lp \<union> set_option sp)) files f1"
    using fa unfolding only_adds_def by auto
  have fab: "only_adds (replace_dot ` (set_option lp \<union> set_option sp)) files f2"
    by (rule only_adds_trans [OF fa fb]) auto
  have "snd (match_faces_try E files lp sp) = f1 \<or> snd (match_faces_try E files lp sp) = f2"
    using a b unfolding match_faces_try_def
    by (auto split: sum.splits option.splits prod.splits)
  then show ?thesis using fa' fab by auto
qed

lemma match_faces_frame:
  "only_adds (replace_dot ` (set_option lp \<union> set_option sp)) files
     (snd (match_faces E files lp sp))"
proof -
  have "snd (match_faces E files lp sp) = snd (match_faces_try E files lp sp)"
    by (simp add: match_faces_def split: prod.splits sum.splits)
  then show ?thesis using match_faces_try_frame [of lp sp files E] by simp
qed

lemma save_base64_image_returns:
  "save_base64_image E files b fn = ((lp, le), f1) \<Longrightarrow>
     only_adds {path_join UPLOAD_FOLDER fn} files f1 \<and>
     set_option lp \<subseteq> {path_join UPLOAD_FOLDER fn}"
  using save_base64_image_cases [of E files b fn] save_base64_image_frame [of fn files E b]
  by auto

lemma only_adds_mono: "only_adds ps f g \<Longrightarrow> ps \<subseteq> rs \<Longrightarrow> only_adds rs f g"
  unfolding only_adds_def by (metis subsetD)

lemma request_paths_set:
  "set (request_paths E u) =
     {path_join UPLOAD_FOLDER (license_filename E u), path_join UPLOAD_FOLDER (selfie_filename E u),
      replace_dot (path_join UPLOAD_FOLDER (license_filename E u)),
      replace_dot (path_join UPLOAD_FOLDER (selfie_filename E u))}"
  by (simp add: request_paths_def Let_def)

lemma save_and_match_frame:
  "only_adds (set (request_paths E u)) files (snd (save_and_match E files data u))"
proof -
  let ?L = "path_join UPLOAD_FOLDER (license_filename E u)"
  let ?S = "path_join UPLOAD_FOLDER (selfie_filename E u)"
  let ?R = "set (request_paths E u)"
  show ?thesis
  proof (cases "py_getitem data ''license_base64''")
    case (Inl e)
    then show ?thesis by (simp add: save_and_match_def only_adds_refl)
  next
    case l: (Inr l)
    obtain lp le f1 where a: "save_base64_image E files l (license_filename E u) = ((lp, le), f1)"
      by (metis prod.exhaust)
    from save_base64_image_returns [OF a] have
      a1: "only_adds {?L} files f1" and a2: "set_option lp \<subseteq> {?L}" by simp_all
    have r1: "only_adds ?R files f1"
      by (rule only_adds_mono [OF a1]) (simp add: request_paths_set)
    show ?thesis
    proof (cases "truthy le")
      case True
      then show ?thesis using l a r1 by (simp add: save_and_match_def)
    next
      case nl: False
      show ?thesis
      proof (cases "py_getitem data ''selfie_base64''")
        case (Inl e)
        then show ?thesis using l a nl r1 by (simp add: save_and_match_def)
      next
        case s: (Inr s)
        obtain sp se f2 where b: "save_base64_image E f1 s (selfie_filename E u) = ((sp, se), f2)"
          by (metis prod.exhaust)
        from save_base64_image_returns [OF b] have
          b1: "only_adds {?S} f1 f2" and b2: "set_option sp \<subseteq> {?S}" by simp_all
        have r2: "only_adds ?R files f2"
          by (rule only_adds_trans [OF a1 b1]) (simp_all add: request_paths_set)
        show ?thesis
        proof (cases "truthy se")
          case True
          then show ?thesis using l a nl s b r2 by (simp add: save_and_match_def)
        next
          case ns: False
          have m: "only_adds (replace_dot ` (set_option lp \<union> set_option sp)) f2
                     (snd (match_faces E f2 lp sp))"
            by (rule match_faces_frame)
          have sub: "replace_dot ` (set_option lp \<union> set_option sp) \<subseteq> ?R"
            using a2 b2 by (auto simp: request_paths_set)
          have r3: "only_adds ?R files (snd (match_faces E f2 lp sp))"
            by (rule only_adds_trans [OF r2 m subset_refl sub])
          have "snd (save_and_match E files data u) = snd (match_faces E f2 lp sp)"
            using l a nl s b ns by (simp add: save_and_match_def split: prod.splits sum.splits)
          then show ?thesis using r3 by simp
        qed
      qed
    qed
  qed
qed

lemma verify_try_frame:
  "snd (verify_try E req files) = files \<or>
   (\<exists>data u. is_json req \<and> get_json req = Inr data \<and> fields_missing data = Inr False \<and>
      py_getitem data ''userId'' = Inr u \<and>
      verify_try E req files = save_and_match E files data u)"
  unfolding verify_try_def
  by (auto split: sum.splits bool.splits)

lemma verify_snd: "snd (verify E req files) = snd (verify_try E req files)"
  by (simp add: verify_def split: prod.splits sum.splits)

lemma verify_frame:
  assumes "get_json req = Inr data" "py_getitem data ''userId'' = Inr u"
  shows "only_adds (set (request_paths E u)) files (snd (verify E req files))"
  using verify_try_frame [of E req files] assms save_and_match_frame [of E u files data]
  by (auto simp: verify_snd only_adds_refl)

lemma verify_keeps_files: "files q \<noteq> None \<Longrightarrow> snd (verify E req files) q \<noteq> None"
proof -
  assume q: "files q \<noteq> None"
  from verify_try_frame [of E req files] show ?thesis
  proof (elim disjE exE conjE)
    assume "snd (verify_try E req files) = files"
    then show ?thesis using q by (simp add: verify_snd)
  next
    fix data u assume "verify_try E req files = save_and_match E files data u"
    then show ?thesis
      using save_and_match_frame [of E u files data] q by (simp add: verify_snd only_adds_def)
  qed
qed

subsection \<open>The names of the files of a request\<close>

lemma path_ends_incomparable:
  "T \<in> path_ends \<Longrightarrow> T' \<in> path_ends \<Longrightarrow> suffix T T' \<Longrightarrow> T = T'"
  unfolding path_ends_def
  by (elim insertE emptyE; simp add: suffix_to_prefix)

lemma suffix_tail: "suffix T (Q @ ''_'' @ g @ T)"
proof -
  have "Q @ ''_'' @ g @ T = (Q @ ''_'' @ g) @ T" by simp
  then show ?thesis unfolding suffix_def by blast
qed

lemma same_end:
  assumes "Q @ ''_'' @ g @ T = Q' @ ''_'' @ g' @ T'" "T \<in> path_ends" "T' \<in> path_ends"
  shows "T = T'"
proof -
  have a: "suffix T (Q @ ''_'' @ g @ T)" by (rule suffix_tail)
  have b: "suffix T' (Q @ ''_'' @ g @ T)" unfolding assms(1) by (rule suffix_tail)
  from a b have "suffix T T' \<or> suffix T' T" by (rule suffix_same_cases)
  then show ?thesis
  proof
    assume "suffix T T'" then show ?thesis by (rule path_ends_incomparable [OF assms(2,3)])
  next
    assume "suffix T' T"
    then have "T' = T" by (rule path_ends_incomparable [OF assms(3,2)])
    then show ?thesis by simp
  qed
qed

lemma same_uuid:
  assumes "Q @ ''_'' @ g @ T = Q' @ ''_'' @ g' @ T'" "T \<in> path_ends" "T' \<in> path_ends"
    and "length g = length g'"
  shows "g = g'"
proof -
  have t: "T = T'" using assms(1-3) by (rule same_end)
  then have "(Q @ ''_'') @ g = (Q' @ ''_'') @ g'" using assms(1) by simp
  then show ?thesis using assms(4) by simp
qed

lemma replace_dot_append: "replace_dot (a @ b) = replace_dot a @ replace_dot b"
  by (induction a) simp_all

lemma replace_dot_no_dot: "CHR ''.'' \<notin> set g \<Longrightarrow> replace_dot g = g"
  by (induction g) auto

lemma uuid_text_no_dot:
  assumes "uuid_text g"
  shows "CHR ''.'' \<notin> set g"
proof -
  have "list_all (\<lambda>c. c \<in> set ''0123456789abcdef-'') g"
    using assms unfolding uuid_text_def by (rule conjunct2)
  then have "\<forall>c \<in> set g. c \<in> set ''0123456789abcdef-''"
    by (simp only: list_all_iff)
  moreover have "CHR ''.'' \<notin> set ''0123456789abcdef-''" by simp
  ultimately show ?thesis by blast
qed

lemma path_join_shape: "\<exists>Q. path_join a (x @ ''_'' @ rest) = Q @ ''_'' @ rest"
proof (cases "prefix ''/'' (x @ ''_'' @ rest)")
  case True
  then have "path_join a (x @ ''_'' @ rest) = x @ ''_'' @ rest" by (simp add: path_join_def)
  then show ?thesis by blast
next
  case False
  then have "path_join a (x @ ''_'' @ rest) = (a @ ''/'' @ x) @ ''_'' @ rest"
    by (simp add: path_join_def)
  then show ?thesis by blast
qed

lemma license_path_shape:
  "\<exists>Q. path_join UPLOAD_FOLDER (license_filename E u) = Q @ ''_'' @ uuid4 E @ ''_license.png''"
  unfolding license_filename_def by (rule path_join_shape)

lemma selfie_path_shape:
  "\<exists>Q. path_join UPLOAD_FOLDER (selfie_filename E u) = Q @ ''_'' @ uuid4 E @ ''_selfie.png''"
  unfolding selfie_filename_def by (rule path_join_shape)

lemma cropped_shape:
  assumes "CHR ''.'' \<notin> set g"
  shows "replace_dot (Q @ ''_'' @ g @ ''_license.png'') =
           replace_dot Q @ ''_'' @ g @ ''_license_cropped.png''"
    and "replace_dot (Q @ ''_'' @ g @ ''_selfie.png'') =
           replace_dot Q @ ''_'' @ g @ ''_selfie_cropped.png''"
  by (simp_all add: replace_dot_append replace_dot_no_dot [OF assms])

lemma request_paths_shape:
  assumes "CHR ''.'' \<notin> set (uuid4 E)" "x \<in> set (request_paths E u)"
  shows "\<exists>Q T. T \<in> path_ends \<and> x = Q @ ''_'' @ uuid4 E @ T"
proof -
  obtain Q1 where l: "path_join UPLOAD_FOLDER (license_filename E u) =
      Q1 @ ''_'' @ uuid4 E @ ''_license.png''"
    using license_path_shape by blast
  obtain Q2 where s: "path_join UPLOAD_FOLDER (selfie_filename E u) =
      Q2 @ ''_'' @ uuid4 E @ ''_selfie.png''"
    using selfie_path_shape by blast
  have e: "''_license.png'' \<in> path_ends" "''_selfie.png'' \<in> path_ends"
    "''_license_cropped.png'' \<in> path_ends" "''_selfie_cropped.png'' \<in> path_ends"
    by (simp_all add: path_ends_def)
  from assms(2) consider "x = path_join UPLOAD_FOLDER (license_filename E u)"
    | "x = path_join UPLOAD_FOLDER (selfie_filename E u)"
    | "x = replace_dot (path_join UPLOAD_FOLDER (license_filename E u))"
    | "x = replace_dot (path_join UPLOAD_FOLDER (selfie_filename E u))"
    unfolding request_paths_set by blast
  then show ?thesis
  proof cases
    case 1
    then have "x = Q1 @ ''_'' @ uuid4 E @ ''_license.png''" using l by simp
    with e(1) show ?thesis by blast
  next
    case 2
    then have "x = Q2 @ ''_'' @ uuid4 E @ ''_selfie.png''" using s by simp
    with e(2) show ?thesis by blast
  next
    case 3
    then have "x = replace_dot Q1 @ ''_'' @ uuid4 E @ ''_license_cropped.png''"
      using l cropped_shape(1) [OF assms(1)] by simp
    with e(3) show ?thesis by blast
  next
    case 4
    then have "x = replace_dot Q2 @ ''_'' @ uuid4 E @ ''_selfie_cropped.png''"
      using s cropped_shape(2) [OF assms(1)] by simp
    with e(4) show ?thesis by blast
  qed
qed

lemma request_paths_disjoint:
  assumes "uuid_text (uuid4 E)" "uuid_text (uuid4 E')" "uuid4 E \<noteq> uuid4 E'"
  shows "set (request_paths E u) \<inter> set (request_paths E' u') = {}"
proof (rule ccontr)
  assume "set (request_paths E u) \<inter> set (request_paths E' u') \<noteq> {}"
  then obtain x where x: "x \<in> set (request_paths E u)" "x \<in> set (request_paths E' u')" by blast
  from request_paths_shape [OF uuid_text_no_dot [OF assms(1)] x(1)] obtain Q T where
    a: "T \<in> path_ends" "x = Q @ ''_'' @ uuid4 E @ T" by blast
  from request_paths_shape [OF uuid_text_no_dot [OF assms(2)] x(2)] obtain Q' T' where
    b: "T' \<in> path_ends" "x = Q' @ ''_'' @ uuid4 E' @ T'" by blast
  have len: "length (uuid4 E) = length (uuid4 E')" using assms(1,2) by (simp add: uuid_text_def)
  have eq: "Q @ ''_'' @ uuid4 E @ T = Q' @ ''_'' @ uuid4 E' @ T'" using a(2) b(2) by simp
  have "uuid4 E = uuid4 E'" by (rule same_uuid [OF eq a(1) b(1) len])
  with assms(3) show False by simp
qed

lemma ends_differ:
  assumes "suffix T x" "suffix T' y" "T \<in> path_ends" "T' \<in> path_ends" "T \<noteq> T'"
  shows "x \<noteq> y"
proof
  assume "x = y"
  with assms(1,2) have "suffix T T' \<or> suffix T' T" by (metis suffix_same_cases)
  then show False using path_ends_incomparable assms(3-5) by metis
qed

lemma request_path_ends:
  "suffix ''_license.png'' (path_join UPLOAD_FOLDER (license_filename E u))"
  "suffix ''_selfie.png'' (path_join UPLOAD_FOLDER (selfie_filename E u))"
  "suffix ''_license_cropped.png'' (replace_dot (path_join UPLOAD_FOLDER (license_filename E u)))"
  "suffix ''_selfie_cropped.png'' (replace_dot (path_join UPLOAD_FOLDER (selfie_filename E u)))"
proof -
  obtain Q1 where l: "path_join UPLOAD_FOLDER (license_filename E u) =
      (Q1 @ ''_'' @ uuid4 E) @ ''_license.png''"
    using license_path_shape [of E u] by auto
  obtain Q2 where s: "path_join UPLOAD_FOLDER (selfie_filename E u) =
      (Q2 @ ''_'' @ uuid4 E) @ ''_selfie.png''"
    using selfie_path_shape [of E u] by auto
  show "suffix ''_license.png'' (path_join UPLOAD_FOLDER (license_filename E u))"
    unfolding l by (rule suffix_appendI) simp
  show "suffix ''_selfie.png'' (path_join UPLOAD_FOLDER (selfie_filename E u))"
    unfolding s by (rule suffix_appendI) simp
  have "replace_dot (path_join UPLOAD_FOLDER (license_filename E u)) =
          replace_dot (Q1 @ ''_'' @ uuid4 E) @ ''_license_cropped.png''"
    unfolding l replace_dot_append by simp
  then show "suffix ''_license_cropped.png''
               (replace_dot (path_join UPLOAD_FOLDER (license_filename E u)))"
    by (simp add: suffix_def)
  have "replace_dot (path_join UPLOAD_FOLDER (selfie_filename E u)) =
          replace_dot (Q2 @ ''_'' @ uuid4 E) @ ''_selfie_cropped.png''"
    unfolding s replace_dot_append by simp
  then show "suffix ''_selfie_cropped.png''
               (replace_dot (path_join UPLOAD_FOLDER (selfie_filename E u)))"
    by (simp add: suffix_def)
qed

lemma path_ends_members:
  "''_license.png'' \<in> path_ends" "''_selfie.png'' \<in> path_ends"
  "''_license_cropped.png'' \<in> path_ends" "''_selfie_cropped.png'' \<in> path_ends"
  by (simp_all add: path_ends_def)

lemma license_path_apart:
  "path_join UPLOAD_FOLDER (license_filename E u) \<notin>
     {path_join UPLOAD_FOLDER (selfie_filename E u),
      replace_dot (path_join UPLOAD_FOLDER (license_filename E u)),
      replace_dot (path_join UPLOAD_FOLDER (selfie_filename E u))}"
  using ends_differ [OF request_path_ends(1) request_path_ends(2) path_ends_members(1,2), of E u E u]
    ends_differ [OF request_path_ends(1) request_path_ends(3) path_ends_members(1,3), of E u E u]
    ends_differ [OF request_path_ends(1) request_path_ends(4) path_ends_members(1,4), of E u E u]
  by simp

lemma selfie_path_apart:
  "path_join UPLOAD_FOLDER (selfie_filename E u) \<notin>
     {replace_dot (path_join UPLOAD_FOLDER (license_filename E u)),
      replace_dot (path_join UPLOAD_FOLDER (selfie_filename E u))}"
  using ends_differ [OF request_path_ends(2) request_path_ends(3) path_ends_members(2,3), of E u E u]
    ends_differ [OF request_path_ends(2) request_path_ends(4) path_ends_members(2,4), of E u E u]
  by simp

lemma request_paths_distinct: "distinct (request_paths E u)"
proof -
  have "replace_dot (path_join UPLOAD_FOLDER (license_filename E u)) \<noteq>
        replace_dot (path_join UPLOAD_FOLDER (selfie_filename E u))"
    by (rule ends_differ [OF request_path_ends(3) request_path_ends(4) path_ends_members(3,4)])
      simp
  then show ?thesis
    using license_path_apart [of E u] selfie_path_apart [of E u]
    by (simp add: request_paths_def Let_def)
qed

subsection \<open>Scratch storage only grows\<close>

lemma save_and_match_keeps_selfie:
  assumes "py_getitem data ''license_base64'' = Inr l"
    and "save_base64_image E files l (license_filename E u) = ((lp, le), f1)" "\<not> truthy le"
    and "py_getitem data ''selfie_base64'' = Inr s"
    and "save_base64_image E f1 s (selfie_filename E u) = ((Some sp, se), f2)"
  shows "f2 sp \<noteq> None \<and> snd (save_and_match E files data u) sp = f2 sp"
proof -
  let ?L = "path_join UPLOAD_FOLDER (license_filename E u)"
  let ?S = "path_join UPLOAD_FOLDER (selfie_filename E u)"
  from save_base64_image_path [OF assms(5)] have sp: "sp = ?S" and w: "f2 sp \<noteq> None"
    by blast+
  from save_base64_image_returns [OF assms(2)] have lp: "set_option lp \<subseteq> {?L}" by simp
  show ?thesis
  proof (cases "truthy se")
    case True
    then have "snd (save_and_match E files data u) = f2"
      using assms by (simp add: save_and_match_def)
    then show ?thesis using w by simp
  next
    case False
    then have r: "snd (save_and_match E files data u) = snd (match_faces E f2 lp (Some sp))"
      using assms by (simp add: save_and_match_def split: prod.splits sum.splits)
    have m: "only_adds (replace_dot ` (set_option lp \<union> set_option (Some sp))) f2
               (snd (match_faces E f2 lp (Some sp)))"
      by (rule match_faces_frame)
    have "sp \<notin> replace_dot ` (set_option lp \<union> set_option (Some sp))"
      using lp selfie_path_apart [of E u] sp by auto
    with m have "snd (match_faces E f2 lp (Some sp)) sp = f2 sp"
      unfolding only_adds_def by blast
    then show ?thesis using r w by simp
  qed
qed

lemma save_and_match_keeps_license:
  assumes "py_getitem data ''license_base64'' = Inr l"
    and "save_base64_image E files l (license_filename E u) = ((Some lp, le), f1)"
  shows "f1 lp \<noteq> None \<and> snd (save_and_match E files data u) lp = f1 lp"
proof -
  let ?L = "path_join UPLOAD_FOLDER (license_filename E u)"
  let ?S = "path_join UPLOAD_FOLDER (selfie_filename E u)"
  from save_base64_image_path [OF assms(2)] have lp: "lp = ?L" and w: "f1 lp \<noteq> None"
    by blast+
  have le: "le = None"
    using save_base64_image_cases [of E files l "license_filename E u"] assms(2) by auto
  show ?thesis
  proof (cases "py_getitem data ''selfie_base64''")
    case (Inl e)
    then have "snd (save_and_match E files data u) = f1"
      using assms le by (simp add: save_and_match_def)
    then show ?thesis using w by simp
  next
    case (Inr s)
    obtain sp se f2 where b: "save_base64_image E f1 s (selfie_filename E u) = ((sp, se), f2)"
      by (metis prod.exhaust)
    from save_base64_image_returns [OF b] have
      b1: "only_adds {?S} f1 f2" and b2: "set_option sp \<subseteq> {?S}" by simp_all
    have k: "f2 lp = f1 lp"
      using b1 license_path_apart [of E u] lp unfolding only_adds_def by auto
    show ?thesis
    proof (cases "truthy se")
      case True
      then have "snd (save_and_match E files data u) = f2"
        using assms le Inr b by (simp add: save_and_match_def)
      then show ?thesis using w k by simp
    next
      case False
      then have r: "snd (save_and_match E files data u) = snd (match_faces E f2 (Some lp) sp)"
        using assms le Inr b by (simp add: save_and_match_def split: prod.splits sum.splits)
      have m: "only_adds (replace_dot ` (set_option (Some lp) \<union> set_option sp)) f2
                 (snd (match_faces E f2 (Some lp) sp))"
        by (rule match_faces_frame)
      have "lp \<notin> replace_dot ` (set_option (Some lp) \<union> set_option sp)"
        using b2 license_path_apart [of E u] lp by auto
      with m have "snd (match_faces E f2 (Some lp) sp) lp = f2 lp"
        unfolding only_adds_def by blast
      then show ?thesis using r w k by simp
    qed
  qed
qed

lemma verify_is_save_and_match:
  assumes "is_json req" "get_json req = Inr data" "fields_missing data = Inr False"
    "py_getitem data ''userId'' = Inr u"
  shows "snd (verify E req files) = snd (save_and_match E files data u)"
  using assms by (simp add: verify_snd verify_try_def)

lemma verify_untouched:
  assumes "\<not> (\<exists>data u. get_json req = Inr data \<and> py_getitem data ''userId'' = Inr u)"
  shows "snd (verify E req files) = files"
  using verify_try_frame [of E req files] assms by (auto simp: verify_snd)

lemma only_adds_fresh:
  assumes "only_adds ps files files'" "\<forall>p \<in> ps. files p = None" "files q = Some b"
  shows "files' q = Some b"
proof -
  have "q \<notin> ps" using assms(2,3) by auto
  then show ?thesis using assms(1,3) unfolding only_adds_def by simp
qed

text \<open>
  C10. The pipeline never deletes a file: every path present before a request is present
  after it. A request writes at most four paths, the two uploads named from the user id
  and the UUID of the request and their two \<open>_cropped\<close> copies, and leaves every other
  path with the content it had; a request that gives no user id writes nothing. When
  these four names are new, as with a fresh UUID, every file that existed keeps its
  content, so the request only creates files. An upload that has been saved is still
  there, with the content saved, when the request ends, whatever fails afterwards. And
  two requests whose UUIDs are different texts of the UUID form write disjoint sets of
  paths, whatever their user ids are.
\<close>

theorem scratch_storage_only_grows:
  "(\<forall>q. files q \<noteq> None \<longrightarrow> snd (verify E req files) q \<noteq> None) \<and>
   (\<not> (\<exists>data u. get_json req = Inr data \<and> py_getitem data ''userId'' = Inr u) \<longrightarrow>
      snd (verify E req files) = files) \<and>
   (\<forall>data u. get_json req = Inr data \<and> py_getitem data ''userId'' = Inr u \<longrightarrow>
      only_adds (set (request_paths E u)) files (snd (verify E req files)) \<and>
      ((\<forall>p \<in> set (request_paths E u). files p = None) \<longrightarrow>
         (\<forall>q b. files q = Some b \<longrightarrow> snd (verify E req files) q = Some b)) \<and>
      (\<forall>l lp le f1.
         is_json req \<and> fields_missing data = Inr False \<and>
         py_getitem data ''license_base64'' = Inr l \<and>
         save_base64_image E files l (license_filename E u) = ((Some lp, le), f1) \<longrightarrow>
         f1 lp \<noteq> None \<and> snd (verify E req files) lp = f1 lp) \<and>
      (\<forall>l lp le f1 s sp se f2.
         is_json req \<and> fields_missing data = Inr False \<and>
         py_getitem data ''license_base64'' = Inr l \<and>
         save_base64_image E files l (license_filename E u) = ((lp, le), f1) \<and> \<not> truthy le \<and>
         py_getitem data ''selfie_base64'' = Inr s \<and>
         save_base64_image E f1 s (selfie_filename E u) = ((Some sp, se), f2) \<longrightarrow>
         f2 sp \<noteq> None \<and> snd (verify E req files) sp = f2 sp)) \<and>
   (\<forall>E' u u'. uuid_text (uuid4 E) \<and> uuid_text (uuid4 E') \<and> uuid4 E \<noteq> uuid4 E' \<longrightarrow>
      set (request_paths E u) \<inter> set (request_paths E' u') = {}) \<and>
   (\<forall>u. distinct (request_paths E u))"
proof (intro conjI allI impI)
  fix q assume "files q \<noteq> None"
  then show "snd (verify E req files) q \<noteq> None" by (rule verify_keeps_files)
next
  assume "\<not> (\<exists>data u. get_json req = Inr data \<and> py_getitem data ''userId'' = Inr u)"
  then show "snd (verify E req files) = files" by (rule verify_untouched)
next
  fix data u assume "get_json req = Inr data \<and> py_getitem data ''userId'' = Inr u"
  then show "only_adds (set (request_paths E u)) files (snd (verify E req files))"
    using verify_frame by blast
next
  fix data u q b
  assume h: "get_json req = Inr data \<and> py_getitem data ''userId'' = Inr u"
    and fresh: "\<forall>p \<in> set (request_paths E u). files p = None" and q: "files q = Some b"
  from h have "only_adds (set (request_paths E u)) files (snd (verify E req files))"
    using verify_frame by blast
  then show "snd (verify E req files) q = Some b" using fresh q by (rule only_adds_fresh)
next
  fix data u l lp le f1
  assume h: "get_json req = Inr data \<and> py_getitem data ''userId'' = Inr u"
    and k: "is_json req \<and> fields_missing data = Inr False \<and>
         py_getitem data ''license_base64'' = Inr l \<and>
         save_base64_image E files l (license_filename E u) = ((Some lp, le), f1)"
  have v: "snd (verify E req files) = snd (save_and_match E files data u)"
    using h k verify_is_save_and_match by blast
  have "f1 lp \<noteq> None \<and> snd (save_and_match E files data u) lp = f1 lp"
    using k save_and_match_keeps_license by blast
  then show "f1 lp \<noteq> None" "snd (verify E req files) lp = f1 lp" using v by simp_all
next
  fix data u l lp le f1 s sp se f2
  assume h: "get_json req = Inr data \<and> py_getitem data ''userId'' = Inr u"
    and k: "is_json req \<and> fields_missing data = Inr False \<and>
         py_getitem data ''license_base64'' = Inr l \<and>
         save_base64_image E files l (license_filename E u) = ((lp, le), f1) \<and> \<not> truthy le \<and>
         py_getitem data ''selfie_base64'' = Inr s \<and>
         save_base64_image E f1 s (selfie_filename E u) = ((Some sp, se), f2)"
  have v: "snd (verify E req files) = snd (save_and_match E files data u)"
    using h k verify_is_save_and_match by blast
  have "f2 sp \<noteq> None \<and> snd (save_and_match E files data u) sp = f2 sp"
    using k save_and_match_keeps_selfie by blast
  then show "f2 sp \<noteq> None" "snd (verify E req files) sp = f2 sp" using v by simp_all
next
  fix E' :: env and u u'
  assume "uuid_text (uuid4 E) \<and> uuid_text (uuid4 E') \<and> uuid4 E \<noteq> uuid4 E'"
  then show "set (request_paths E u) \<inter> set (request_paths E' u') = {}"
    using request_paths_disjoint by blast
next
  fix u show "distinct (request_paths E u)" by (rule request_paths_distinct)
qed

lemma demo_uuid: "uuid_text (uuid4 demo_env)"
  by (simp add: uuid_text_def demo_env_def)

theorem scratch_storage_only_grows_witness:
  "uuid_text (uuid4 demo_env) \<and>
   uuid_text ''123e4567-e89b-42d3-a456-426614174000'' \<and>
   set (request_paths demo_env (JStr ''u1'')) \<inter>
     set (request_paths (demo_env\<lparr>uuid4 := ''123e4567-e89b-42d3-a456-426614174000''\<rparr>)
            (JStr ''u1'')) = {} \<and>
   snd (verify demo_env (demo_request (JStr ''QUJD'') (JStr ''A'')) Map.empty)
     ''uploads/u1_8ab6788b-d739-481d-9404-775a683c2e9e_license.png'' = Some [0x41, 0x42, 0x43] \<and>
   only_adds (set (request_paths demo_env (JStr ''u1''))) Map.empty
     (snd (verify demo_env (demo_request (JStr ''QUJD'') (JStr ''A'')) Map.empty))"
proof -
  let ?E' = "demo_env\<lparr>uuid4 := ''123e4567-e89b-42d3-a456-426614174000''\<rparr>"
  have a: "uuid_text (uuid4 ?E')" by (simp add: uuid_text_def)
  have b: "uuid4 demo_env \<noteq> uuid4 ?E'" by (simp add: demo_env_def)
  have c: "get_json (demo_request (JStr ''QUJD'') (JStr ''A'')) =
             Inr (JObj [(''userId'', JStr ''u1''), (''license_base64'', JStr ''QUJD''),
                        (''selfie_base64'', JStr ''A'')])"
    by (simp add: demo_request_def)
  have d: "py_getitem (JObj [(''userId'', JStr ''u1''), (''license_base64'', JStr ''QUJD''),
                        (''selfie_base64'', JStr ''A'')]) ''userId'' = Inr (JStr ''u1'')"
    by simp
  have e: "uuid_text ''123e4567-e89b-42d3-a456-426614174000''" by (simp add: uuid_text_def)
  note t = scratch_storage_only_grows [of Map.empty demo_env
      "demo_request (JStr ''QUJD'') (JStr ''A'')"]
  have f: "only_adds (set (request_paths demo_env (JStr ''u1''))) Map.empty
     (snd (verify demo_env (demo_request (JStr ''QUJD'') (JStr ''A'')) Map.empty))"
    using t c d by blast
  have g: "set (request_paths demo_env (JStr ''u1'')) \<inter> set (request_paths ?E' (JStr ''u1'')) = {}"
    using t demo_uuid a b by blast
  have h: "snd (verify demo_env (demo_request (JStr ''QUJD'') (JStr ''A'')) Map.empty)
     ''uploads/u1_8ab6788b-d739-481d-9404-775a683c2e9e_license.png'' = Some [0x41, 0x42, 0x43]"
    by (simp add: verify_demo_bad_selfie)
  show ?thesis using demo_uuid e f g h by blast
qed

end
